theory Spec2Isabelle
  imports Main "HOL-Library.AList"
begin

section \<open>Strings\<close>

text \<open>
  A Python \<open>str\<close> is modelled as a list of code points below 256 (one \<open>char\<close> each);
  code points beyond Latin-1 are outside the model. \<open>str.lower\<close>, \<open>str.isspace\<close>
  and \<open>str.strip\<close> are written out for that range.
\<close>

definition py_lower_char :: "char \<Rightarrow> char" where
  "py_lower_char c =
     (let n = (of_char c :: nat)
      in if (65 \<le> n \<and> n \<le> 90) \<or> (192 \<le> n \<and> n \<le> 222 \<and> n \<noteq> 215)
         then char_of (n + 32) else c)"

definition py_lower :: "string \<Rightarrow> string" where
  "py_lower s = map py_lower_char s"

definition py_isspace :: "char \<Rightarrow> bool" where
  "py_isspace c =
     (let n = (of_char c :: nat)
      in (9 \<le> n \<and> n \<le> 13) \<or> (28 \<le> n \<and> n \<le> 32) \<or> n = 133 \<or> n = 160)"

definition py_strip :: "string \<Rightarrow> string" where
  "py_strip s = rev (dropWhile py_isspace (rev (dropWhile py_isspace s)))"

text \<open>\<open>s.split(c)\<close> for a one-character separator: never empty, \<open>''''.split(c) = ['''']\<close>.\<close>

fun py_split :: "char \<Rightarrow> string \<Rightarrow> string list" where
  "py_split c [] = [[]]"
| "py_split c (x # xs) =
     (if x = c then [] # py_split c xs
      else (case py_split c xs of
              [] \<Rightarrow> [[x]]
            | w # ws \<Rightarrow> (x # w) # ws))"

text \<open>\<open>[f.strip() for f in s.split(',') if f.strip()]\<close>, used by the selector grammars.\<close>

definition split_fields :: "string \<Rightarrow> string list" where
  "split_fields s = filter (\<lambda>f. f \<noteq> []) (map py_strip (py_split CHR '','' s))"

section \<open>Filter values and the filter grammar\<close>

text \<open>
  The values a filter map can hold: what \<open>_parse_filter_value\<close> produces (\<open>None\<close>,
  a boolean, the original string) and the list of strings the \<open>in\<close>/\<open>notin\<close> coercion
  produces or a caller passes.
\<close>

datatype pyval = VNone | VBool bool | VStr string | VList "string list"

text \<open>\<open>_parse_filter_value\<close> of query_parser.py (and its copy in utils_bd.py).\<close>

definition parse_filter_value :: "string \<Rightarrow> pyval" where
  "parse_filter_value v =
     (let value_lower = py_lower v
      in if value_lower \<in> set [''true'', ''yes'', ''on'', ''1''] then VBool True
         else if value_lower \<in> set [''false'', ''no'', ''off'', ''0''] then VBool False
         else if value_lower \<in> set [''null'', ''none''] then VNone
         else VStr v)"

text \<open>\<open>_parse_bool\<close> of crud_utils.py and utils_bd.py; the last two cases are \<open>bool(value)\<close>.\<close>

fun parse_bool :: "pyval \<Rightarrow> bool" where
  "parse_bool (VBool b) = b"
| "parse_bool (VStr s) = (py_lower s \<in> set [''true'', ''yes'', ''1'', ''on''])"
| "parse_bool VNone = False"
| "parse_bool (VList xs) = (xs \<noteq> [])"

text \<open>
  \<open>FILTER_PATTERN.fullmatch(key)\<close> for the pattern \<open>filter\[(.+?)\]\[(.+?)\]\<close>: the key is
  \<open>filter[\<close>, a first group, \<open>][\<close>, a second group and a final \<open>]\<close>; both groups are
  non-empty and free of line feeds (\<open>.\<close> does not match one), and the lazy first group is
  the shortest one that lets the whole key match. \<open>find_sep\<close> scans for that first
  separator, \<open>g\<close> being the first group read so far.
\<close>

fun find_sep :: "string \<Rightarrow> string \<Rightarrow> (string \<times> string) option" where
  "find_sep g (a # b # r) =
     (if a = CHR '']'' \<and> b = CHR ''['' \<and> g \<noteq> [] \<and> r \<noteq> [] then Some (g, r)
      else find_sep (g @ [a]) (b # r))"
| "find_sep g [a] = None"
| "find_sep g [] = None"

definition filter_match :: "string \<Rightarrow> (string \<times> string) option" where
  "filter_match key =
     (if take 7 key = ''filter['' \<and> drop 7 key \<noteq> [] \<and> last key = CHR '']''
      then (let body = butlast (drop 7 key)
            in if CHR 0x0A \<in> set body then None else find_sep [] body)
      else None)"

text \<open>
  \<open>parse_filters\<close>: the multi-map is the list of (key, value) pairs of
  \<open>query_params.multi_items()\<close>, in order. The filter map is a dictionary of
  dictionaries, kept as association lists in insertion order. The calls of
  \<open>logger.warning\<close> are collected as diagnostics (debug and info messages are not).
\<close>

datatype diagnostic =
    EmptyFieldOrOperator string
  | Overwrite string string string pyval

type_synonym filter_map = "(string \<times> (string \<times> pyval) list) list"

record parse_state =
  filters :: filter_map
  processed_keys :: "string set"
  warnings :: "diagnostic list"

definition parse_step :: "parse_state \<Rightarrow> string \<times> string \<Rightarrow> parse_state" where
  "parse_step st kv =
     (let key = fst kv; val = snd kv
      in if key \<in> processed_keys st then st
         else (case filter_match key of
                 None \<Rightarrow> st
               | Some (field_specifier, op_raw) \<Rightarrow>
                   (let operator = py_lower op_raw
                    in if field_specifier = [] \<or> operator = []
                       then st\<lparr>warnings := warnings st @ [EmptyFieldOrOperator key]\<rparr>
                       else
                         (let parsed_value = parse_filter_value val;
                              ops = (case map_of (filters st) field_specifier of
                                       None \<Rightarrow> [] | Some d \<Rightarrow> d);
                              ws = (case map_of ops operator of
                                      None \<Rightarrow> warnings st
                                    | Some old \<Rightarrow>
                                        warnings st @ [Overwrite field_specifier operator val old])
                          in \<lparr>filters = AList.update field_specifier
                                           (AList.update operator parsed_value ops) (filters st),
                              processed_keys = insert key (processed_keys st),
                              warnings = ws\<rparr>))))"

definition parse_run :: "(string \<times> string) list \<Rightarrow> parse_state" where
  "parse_run query_params =
     foldl parse_step \<lparr>filters = [], processed_keys = {}, warnings = []\<rparr> query_params"

definition parse_filters :: "(string \<times> string) list \<Rightarrow> filter_map \<times> diagnostic list" where
  "parse_filters query_params =
     (let st = parse_run query_params in (filters st, warnings st))"

section \<open>The schema and path resolution\<close>

text \<open>
  A mapped class is named by its class name. A relationship property records the class
  that declares it, its key and the class it leads to (\<open>prop.mapper.class_\<close>); a column
  attribute records its class (\<open>attr.parent.class_\<close>) and its key. The relationship
  attribute \<open>Cls.key\<close> and its property are one value here. A \<open>schema\<close> says what
  \<open>hasattr\<close> and \<open>getattr\<close> find on a class: \<open>sch_mapped\<close> lists its mapped attributes
  (a column, a relationship, or an attribute whose \<open>.property\<close> is no relationship and
  that is no InstrumentedAttribute), \<open>sch_plain\<close> says which other names are attributes
  of the class; those have no \<open>.property\<close>, and reading it raises AttributeError.
\<close>

type_synonym entity = string

record relprop =
  rel_owner :: entity
  rel_key :: string
  rel_target :: entity

datatype colattr = ColAttr (col_class: entity) (col_key: string)

datatype member = Column | Relationship relprop | Unmapped | OtherProperty

record schema =
  sch_mapped :: "entity \<Rightarrow> (string \<times> member) list"
  sch_plain :: "entity \<Rightarrow> string \<Rightarrow> bool"

text \<open>\<open>getattr(cls, name)\<close> where \<open>hasattr(cls, name)\<close> holds, \<open>None\<close> where it does not.\<close>

definition class_getattr :: "schema \<Rightarrow> entity \<Rightarrow> string \<Rightarrow> member option" where
  "class_getattr sch cls name =
     (case map_of (sch_mapped sch cls) name of
        Some m \<Rightarrow> Some m
      | None \<Rightarrow> if sch_plain sch cls name then Some Unmapped else None)"

datatype error =
    UnknownField entity string string
  | RelationshipAsTerminal string string
  | UnmappedBaseRelationship string entity
  | ColumnNotTerminal string string
  | UnexpectedType string string
  | UnresolvedTerminal string
  | AttributeError string
  | FilterNotDict string
  | InvalidOperator string string
  | FilterApplicationError string pyval string
  | InvalidSortDirection "string option"

text \<open>
  The loop of \<open>_get_column_or_relationship\<close> (utils_bd.py; crud_utils.py is the same
  loop and appends the relationship attribute where this one appends its property):
  \<open>cur\<close> is \<open>current_model\<close>, \<open>i\<close> the index of \<open>part\<close>, \<open>rest = []\<close> says that
  \<open>part\<close> is the last one, \<open>joins\<close> is \<open>joins_needed\<close>. Leaving the loop without a
  column is the final \<open>target_attribute is None\<close> error.
\<close>

fun resolve_parts ::
  "schema \<Rightarrow> entity \<Rightarrow> string \<Rightarrow> (string \<rightharpoonup> relprop) \<Rightarrow> entity \<Rightarrow> nat \<Rightarrow> string list
     \<Rightarrow> relprop list \<Rightarrow> error + (colattr \<times> entity \<times> relprop list)" where
  "resolve_parts sch model_cls spec relations_map cur i [] joins =
     Inl (UnresolvedTerminal spec)"
| "resolve_parts sch model_cls spec relations_map cur i (part # rest) joins =
     (case class_getattr sch cur part of
        None \<Rightarrow> Inl (UnknownField cur part spec)
      | Some Unmapped \<Rightarrow> Inl (AttributeError part)
      | Some (Relationship p) \<Rightarrow>
          (if rest = [] then Inl (RelationshipAsTerminal part spec)
           else if i = 0 then
             (case relations_map part of
                None \<Rightarrow> Inl (UnmappedBaseRelationship part model_cls)
              | Some q \<Rightarrow>
                  resolve_parts sch model_cls spec relations_map (rel_target p) (Suc i) rest
                    (joins @ [q]))
           else resolve_parts sch model_cls spec relations_map (rel_target p) (Suc i) rest
                  (joins @ [p]))
      | Some Column \<Rightarrow>
          (if rest \<noteq> [] then Inl (ColumnNotTerminal part spec)
           else Inr (ColAttr cur part, cur, joins))
      | Some OtherProperty \<Rightarrow> Inl (UnexpectedType part spec))"

definition get_column_or_relationship ::
  "schema \<Rightarrow> entity \<Rightarrow> string \<Rightarrow> (string \<rightharpoonup> relprop)
     \<Rightarrow> error + (colattr \<times> entity \<times> relprop list)" where
  "get_column_or_relationship sch model_cls field_specifier relations_map =
     resolve_parts sch model_cls field_specifier relations_map model_cls 0
       (py_split CHR ''.'' field_specifier) []"

text \<open>The keys of \<open>sa_inspect(model_cls).relationships\<close>.\<close>

definition relationship_keys :: "schema \<Rightarrow> entity \<Rightarrow> string list" where
  "relationship_keys sch model_cls =
     map fst (filter (\<lambda>kv. case snd kv of Relationship p \<Rightarrow> True | _ \<Rightarrow> False)
        (sch_mapped sch model_cls))"

section \<open>Queries, predicates and the operator table\<close>

datatype pred =
    Eq colattr pyval | Neq colattr pyval
  | Lt colattr pyval | Lte colattr pyval | Gt colattr pyval | Gte colattr pyval
  | In colattr pyval | NotIn colattr pyval
  | Like colattr pyval | Ilike colattr pyval
  | IsNull colattr | IsNotNull colattr
  | Contains colattr pyval | Startswith colattr pyval | Endswith colattr pyval

datatype order_expr = Asc colattr | Desc colattr

datatype load_option =
    Selectinload entity string
  | Noload entity string
  | LoaderCriteria relprop pred

text \<open>
  A \<open>Select\<close> is what the builder calls have attached to it, in call order:
  \<open>join(target, isouter=b)\<close> appends to \<open>q_joins\<close>, \<open>where\<close> to \<open>q_wheres\<close>, \<open>options\<close>
  to \<open>q_options\<close>, \<open>order_by\<close> to \<open>q_order_by\<close>. What SQLAlchemy later renders from
  them is not part of the model.
\<close>

record query =
  q_joins :: "(relprop \<times> bool) list"
  q_wheres :: "pred list"
  q_options :: "load_option list"
  q_order_by :: "order_expr list"

text \<open>
  \<open>OPERATOR_MAP\<close>: each entry builds the SQLAlchemy expression of its operator, kept
  here as a term of \<open>pred\<close>, or raises (\<open>None\<close>). SQLAlchemy builds \<open>==\<close>, \<open>!=\<close>,
  \<open>is_\<close> and \<open>is_not\<close> on any operand and \<open>in_\<close>, \<open>notin_\<close> on a list; for every other
  operator it raises ArgumentError when the operand is \<open>None\<close>, \<open>True\<close> or \<open>False\<close>
  (\<open>needs_operand\<close>).
\<close>

definition needs_operand ::
  "(colattr \<Rightarrow> pyval \<Rightarrow> pred) \<Rightarrow> colattr \<Rightarrow> pyval \<Rightarrow> pred option" where
  "needs_operand build c v =
     (case v of
        VNone \<Rightarrow> None
      | VBool b \<Rightarrow> None
      | _ \<Rightarrow> Some (build c v))"

definition OPERATOR_MAP :: "(string \<times> (colattr \<Rightarrow> pyval \<Rightarrow> pred option)) list" where
  "OPERATOR_MAP =
     [(''eq'', \<lambda>c v. Some (Eq c v)), (''neq'', \<lambda>c v. Some (Neq c v)),
      (''lt'', needs_operand Lt), (''lte'', needs_operand Lte),
      (''gt'', needs_operand Gt), (''gte'', needs_operand Gte),
      (''in'', \<lambda>c v. Some (In c v)), (''notin'', \<lambda>c v. Some (NotIn c v)),
      (''like'', needs_operand Like), (''ilike'', needs_operand Ilike),
      (''isnull'', \<lambda>c v. Some (if parse_bool v then IsNull c else IsNotNull c)),
      (''contains'', needs_operand Contains), (''startswith'', needs_operand Startswith),
      (''endswith'', needs_operand Endswith)]"

text \<open>
  The \<open>in\<close>/\<open>notin\<close> coercion inside the \<open>try\<close> of \<open>apply_filters\<close>: a list is kept, a
  string is split on commas with empty items dropped, anything else raises. The
  \<open>except Exception\<close> around the \<open>try\<close> re-raises what the coercion or the operator
  function raised as the wrapped ValueError, which names the operator, the value as it
  then is, and the field.
\<close>

definition coerce_value :: "string \<Rightarrow> string \<Rightarrow> pyval \<Rightarrow> error + pyval" where
  "coerce_value field_specifier op_code v =
     (if py_lower op_code \<in> set [''in'', ''notin''] then
        (case v of
           VList xs \<Rightarrow> Inr v
         | VStr s \<Rightarrow> Inr (VList (split_fields s))
         | _ \<Rightarrow> Inl (FilterApplicationError op_code v field_specifier))
      else Inr v)"

text \<open>
  A value of the filter map is a dictionary of operators or, for the
  \<open>isinstance(operators, dict)\<close> check, something else.
\<close>

datatype opsval = Ops "(string \<times> pyval) list" | NotDict pyval

type_synonym filter_params = "(string \<times> opsval) list"

definition as_filter_params :: "filter_map \<Rightarrow> filter_params" where
  "as_filter_params fm = map (\<lambda>fd. (fst fd, Ops (snd fd))) fm"

subsection \<open>crud_utils.py\<close>

text \<open>
  \<open>apply_filters\<close> of crud_utils.py, the one the services import. Its \<open>applied_joins\<close>
  set is written but never read (the membership test is commented out), so every hop
  of every field is joined.
\<close>

fun crud_apply_operators ::
  "string \<Rightarrow> colattr \<Rightarrow> (string \<times> pyval) list \<Rightarrow> query \<Rightarrow> error + query" where
  "crud_apply_operators field_specifier target_column [] q = Inr q"
| "crud_apply_operators field_specifier target_column ((op_code, v) # ops) q =
     (case map_of OPERATOR_MAP (py_lower op_code) of
        None \<Rightarrow> Inl (InvalidOperator op_code field_specifier)
      | Some op_func \<Rightarrow>
          (case coerce_value field_specifier op_code v of
             Inl e \<Rightarrow> Inl e
           | Inr v' \<Rightarrow>
               (case op_func target_column v' of
                  None \<Rightarrow> Inl (FilterApplicationError op_code v' field_specifier)
                | Some filter_expression \<Rightarrow>
                    crud_apply_operators field_specifier target_column ops
                      (q\<lparr>q_wheres := q_wheres q @ [filter_expression]\<rparr>))))"

fun crud_apply_filters ::
  "query \<Rightarrow> schema \<Rightarrow> entity \<Rightarrow> filter_params \<Rightarrow> (string \<rightharpoonup> relprop) \<Rightarrow> error + query" where
  "crud_apply_filters q sch model_cls [] relations_map = Inr q"
| "crud_apply_filters q sch model_cls ((field_specifier, operators) # fs) relations_map =
     (case operators of
        NotDict x \<Rightarrow> Inl (FilterNotDict field_specifier)
      | Ops ops \<Rightarrow>
          (case get_column_or_relationship sch model_cls field_specifier relations_map of
             Inl e \<Rightarrow> Inl e
           | Inr (target_column, target_model_cls, joins_to_apply) \<Rightarrow>
               (case crud_apply_operators field_specifier target_column ops
                       (q\<lparr>q_joins := q_joins q @ map (\<lambda>p. (p, True)) joins_to_apply\<rparr>) of
                  Inl e \<Rightarrow> Inl e
                | Inr q' \<Rightarrow> crud_apply_filters q' sch model_cls fs relations_map)))"

text \<open>
  \<open>apply_sorting\<close> (the same function in crud_utils.py and utils_bd.py): \<open>sort_by\<close> and
  \<open>sort_dir\<close> may be absent (\<open>None\<close>).
\<close>

definition apply_sorting ::
  "query \<Rightarrow> schema \<Rightarrow> entity \<Rightarrow> string option \<Rightarrow> string option \<Rightarrow> (string \<rightharpoonup> relprop)
     \<Rightarrow> error + query" where
  "apply_sorting q sch model_cls sort_by sort_dir relations_map =
     (case sort_by of
        None \<Rightarrow> Inr q
      | Some sb \<Rightarrow>
          (if sb = [] then Inr q
           else
             (let direction = (case sort_dir of
                                 None \<Rightarrow> ''asc''
                               | Some d \<Rightarrow> if d = [] then ''asc'' else py_lower d)
              in if direction \<notin> set [''asc'', ''desc''] then Inl (InvalidSortDirection sort_dir)
                 else
                   (case get_column_or_relationship sch model_cls sb relations_map of
                      Inl e \<Rightarrow> Inl e
                    | Inr (target_column, target_model, joins_to_apply) \<Rightarrow>
                        Inr (q\<lparr>q_joins := q_joins q @ map (\<lambda>p. (p, True)) joins_to_apply,
                               q_order_by := q_order_by q @
                                 [if direction = ''asc'' then Asc target_column
                                  else Desc target_column]\<rparr>)))))"

subsection \<open>utils_bd.py\<close>

text \<open>
  \<open>str(value)\<close> for the key of \<open>applied_loader_criteria_options\<close>; the \<open>repr\<close> of a
  string inside a list quotes and escapes it as Python does for code points below 256.
\<close>

definition hex_digit :: "nat \<Rightarrow> char" where
  "hex_digit k = ''0123456789abcdef'' ! (k mod 16)"

definition repr_char :: "char \<Rightarrow> char \<Rightarrow> string" where
  "repr_char quote c =
     (let n = (of_char c :: nat)
      in if c = quote \<or> c = CHR 0x5C then [CHR 0x5C, c]
         else if n = 9 then [CHR 0x5C, CHR ''t'']
         else if n = 10 then [CHR 0x5C, CHR ''n'']
         else if n = 13 then [CHR 0x5C, CHR ''r'']
         else if n < 32 \<or> n = 127 \<or> (128 \<le> n \<and> n \<le> 160) \<or> n = 173
           then [CHR 0x5C, CHR ''x'', hex_digit (n div 16), hex_digit n]
         else [c])"

definition py_repr :: "string \<Rightarrow> string" where
  "py_repr s =
     (let quote = (if CHR 0x27 \<in> set s \<and> CHR 0x22 \<notin> set s then CHR 0x22 else CHR 0x27)
      in [quote] @ concat (map (repr_char quote) s) @ [quote])"

fun join_strings :: "string \<Rightarrow> string list \<Rightarrow> string" where
  "join_strings sep [] = []"
| "join_strings sep [x] = x"
| "join_strings sep (x # y # ys) = x @ sep @ join_strings sep (y # ys)"

fun py_str :: "pyval \<Rightarrow> string" where
  "py_str VNone = ''None''"
| "py_str (VBool b) = (if b then ''True'' else ''False'')"
| "py_str (VStr s) = s"
| "py_str (VList xs) = ''['' @ join_strings '', '' (map py_repr xs) @ '']''"

text \<open>
  \<open>apply_filters\<close> of utils_bd.py. The state of its loops is the query, the set
  \<open>already_joined_relationships_for_where\<close> and the set
  \<open>applied_loader_criteria_options\<close>, both fresh at every call. The loader criterion is the
  expression the operator function builds a second time from the same column and value.
  The warning logged for a column deeper than the first hop changes nothing and is left
  out.
\<close>

type_synonym option_key = "string \<times> string \<times> string \<times> string"

fun bd_apply_joins :: "relprop list \<Rightarrow> query \<times> relprop set \<Rightarrow> query \<times> relprop set" where
  "bd_apply_joins [] st = st"
| "bd_apply_joins (rel_prop # rest) (q, joined) =
     (if rel_prop \<notin> joined
      then bd_apply_joins rest (q\<lparr>q_joins := q_joins q @ [(rel_prop, True)]\<rparr>, insert rel_prop joined)
      else bd_apply_joins rest (q, joined))"

fun bd_apply_operators ::
  "string \<Rightarrow> colattr \<Rightarrow> relprop list \<Rightarrow> (string \<times> pyval) list \<Rightarrow> query \<times> option_key set
     \<Rightarrow> error + (query \<times> option_key set)" where
  "bd_apply_operators field_specifier target_column joins [] st = Inr st"
| "bd_apply_operators field_specifier target_column joins ((op_code, v) # ops) (q, applied) =
     (case map_of OPERATOR_MAP (py_lower op_code) of
        None \<Rightarrow> Inl (InvalidOperator op_code field_specifier)
      | Some op_func \<Rightarrow>
          (case coerce_value field_specifier op_code v of
             Inl e \<Rightarrow> Inl e
           | Inr v' \<Rightarrow>
               (case op_func target_column v' of
                  None \<Rightarrow> Inl (FilterApplicationError op_code v' field_specifier)
                | Some filter_expression \<Rightarrow>
                    (let q1 = q\<lparr>q_wheres := q_wheres q @ [filter_expression]\<rparr>
                     in case joins of
                          [] \<Rightarrow>
                            bd_apply_operators field_specifier target_column joins ops (q1, applied)
                        | first # others \<Rightarrow>
                            (if col_class target_column = rel_target first then
                               (let option_key =
                                      (rel_key first, col_key target_column, op_code, py_str v)
                                in if option_key \<notin> applied
                                   then bd_apply_operators field_specifier target_column joins ops
                                          (q1\<lparr>q_options := q_options q1 @
                                                [LoaderCriteria first filter_expression]\<rparr>,
                                           insert option_key applied)
                                   else bd_apply_operators field_specifier target_column joins ops
                                          (q1, applied))
                             else bd_apply_operators field_specifier target_column joins ops
                                    (q1, applied))))))"

fun bd_apply_fields ::
  "schema \<Rightarrow> entity \<Rightarrow> (string \<rightharpoonup> relprop) \<Rightarrow> filter_params
     \<Rightarrow> query \<times> relprop set \<times> option_key set \<Rightarrow> error + (query \<times> relprop set \<times> option_key set)" where
  "bd_apply_fields sch model_cls relations_map [] st = Inr st"
| "bd_apply_fields sch model_cls relations_map ((field_specifier, operators) # fs)
       (q, joined, applied) =
     (case operators of
        NotDict x \<Rightarrow> Inl (FilterNotDict field_specifier)
      | Ops ops \<Rightarrow>
          (case get_column_or_relationship sch model_cls field_specifier relations_map of
             Inl e \<Rightarrow> Inl e
           | Inr (target_column, related_model_cls, joins_path_properties) \<Rightarrow>
               (let (q1, joined1) = bd_apply_joins joins_path_properties (q, joined)
                in case bd_apply_operators field_specifier target_column joins_path_properties
                          ops (q1, applied) of
                     Inl e \<Rightarrow> Inl e
                   | Inr (q2, applied2) \<Rightarrow>
                       bd_apply_fields sch model_cls relations_map fs (q2, joined1, applied2))))"

definition apply_filters ::
  "query \<Rightarrow> schema \<Rightarrow> entity \<Rightarrow> filter_params \<Rightarrow> (string \<rightharpoonup> relprop) \<Rightarrow> error + query" where
  "apply_filters q sch model_cls filter_params relations_map =
     (case bd_apply_fields sch model_cls relations_map filter_params (q, {}, {}) of
        Inl e \<Rightarrow> Inl e
      | Inr (q', joined, applied) \<Rightarrow> Inr q')"

section \<open>The load planner\<close>

text \<open>
  \<open>extract_relationships_from_select_hybrid\<close>: a field that starts with \<open>[\<close> and holds
  a \<open>]\<close> is matched against \<open>\[([^\]]+)\]\<close> at its start, which succeeds when at least
  one character stands before the first \<open>]\<close>; any other field contributes its first
  dotted segment when that is a relationship key.
\<close>

definition extract_field :: "string set \<Rightarrow> string \<Rightarrow> string set" where
  "extract_field model_relation_keys field_path =
     (if take 1 field_path = ''['' \<and> CHR '']'' \<in> set field_path then
        (let name = takeWhile (\<lambda>c. c \<noteq> CHR '']'') (drop 1 field_path)
         in if name \<noteq> [] then {name} else {})
      else
        (let base_name = (case py_split CHR ''.'' field_path of [] \<Rightarrow> [] | b # bs \<Rightarrow> b)
         in if base_name \<in> model_relation_keys then {base_name} else {}))"

definition extract_relationships_from_select_hybrid ::
  "string option \<Rightarrow> string set \<Rightarrow> string set" where
  "extract_relationships_from_select_hybrid select_param model_relation_keys =
     (case select_param of
        None \<Rightarrow> {}
      | Some s \<Rightarrow>
          (if s = [] then {}
           else \<Union> (set (map (extract_field model_relation_keys) (split_fields s)))))"

text \<open>
  \<open>apply_select_load_options\<close>: one option per relationship of the class, in the order
  \<open>relationship_keys\<close> lists them (the source iterates a set, whose order Python leaves
  open); \<open>query.options\<close> is called only when there is an option.
\<close>

definition apply_select_load_options :: "query \<Rightarrow> schema \<Rightarrow> entity \<Rightarrow> string option \<Rightarrow> query" where
  "apply_select_load_options q sch model_cls include_param =
     (let model_relation_keys = relationship_keys sch model_cls;
          relations_to_load =
            extract_relationships_from_select_hybrid include_param (set model_relation_keys);
          options_to_apply =
            map (\<lambda>rel_name. if rel_name \<in> relations_to_load
                             then Selectinload model_cls rel_name
                             else Noload model_cls rel_name) model_relation_keys
      in if options_to_apply \<noteq> [] then q\<lparr>q_options := q_options q @ options_to_apply\<rparr> else q)"

section \<open>The selection tree\<close>

text \<open>
  The \<open>include\<close> structure for Pydantic: a dictionary in insertion order whose values
  are \<open>True\<close> or dictionaries. \<open>list_part_match\<close> is the fullmatch of
  \<open>\[([a-zA-Z0-9_]+)\]\<close>.
\<close>

datatype seltree = STrue | SDict "(string \<times> seltree) list"

definition word_char :: "char \<Rightarrow> bool" where
  "word_char c =
     (let n = (of_char c :: nat)
      in (97 \<le> n \<and> n \<le> 122) \<or> (65 \<le> n \<and> n \<le> 90) \<or> (48 \<le> n \<and> n \<le> 57) \<or> n = 95)"

definition list_part_match :: "string \<Rightarrow> string option" where
  "list_part_match part =
     (if 3 \<le> length part \<and> hd part = CHR ''['' \<and> last part = CHR '']''
         \<and> list_all word_char (butlast (tl part))
      then Some (butlast (tl part)) else None)"

text \<open>\<open>d.get(k)\<close> when it is a dictionary, the fresh \<open>{}\<close> the source stores otherwise.\<close>

definition get_dict :: "(string \<times> seltree) list \<Rightarrow> string \<Rightarrow> (string \<times> seltree) list" where
  "get_dict d k = (case map_of d k of Some (SDict sub) \<Rightarrow> sub | _ \<Rightarrow> [])"

text \<open>
  The inner loop over the parts of one field path. \<open>current_level\<close> always points into
  the tree below the previous level, so the walk is a recursion that returns the
  updated level; a key keeps its place when its value is replaced.
\<close>

fun insert_parts :: "string list \<Rightarrow> (string \<times> seltree) list \<Rightarrow> (string \<times> seltree) list" where
  "insert_parts [] current_level = current_level"
| "insert_parts (part # rest) current_level =
     (case list_part_match part of
        Some list_name \<Rightarrow>
          (let list_container = get_dict current_level list_name;
               all_level = get_dict list_container ''__all__''
           in if rest = []
              then AList.update list_name
                     (SDict (AList.update ''__all__'' STrue list_container)) current_level
              else AList.update list_name
                     (SDict (AList.update ''__all__'' (SDict (insert_parts rest all_level))
                        list_container)) current_level)
      | None \<Rightarrow>
          (if rest = [] then
             (case map_of current_level part of
                Some (SDict sub) \<Rightarrow> current_level
              | _ \<Rightarrow> AList.update part STrue current_level)
           else AList.update part (SDict (insert_parts rest (get_dict current_level part)))
                  current_level))"

definition parse_select_fields_for_pydantic ::
  "string option \<Rightarrow> (string \<times> seltree) list option" where
  "parse_select_fields_for_pydantic select_str =
     (case select_str of
        None \<Rightarrow> None
      | Some s \<Rightarrow>
          (if s = [] then None
           else
             (let fields_to_process = split_fields s
              in if fields_to_process = [] then None
                 else
                   (let include_dict =
                          foldl (\<lambda>d field_path. insert_parts (py_split CHR ''.'' field_path) d)
                            [] fields_to_process
                    in if include_dict = [] then None else Some include_dict))))"

section \<open>The schema of this repository\<close>

text \<open>
  The mapped classes of \<open>_database/models.py\<close> with the columns and relationships they
  declare or inherit from \<open>BaseModel\<close>.
\<close>

definition base_model_columns :: "(string \<times> member) list" where
  "base_model_columns =
     [(''id'', Column), (''created_at'', Column), (''updated_at'', Column),
      (''flg_ativo'', Column), (''flg_excluido'', Column)]"

definition models_mapped :: "entity \<Rightarrow> (string \<times> member) list" where
  "models_mapped cls =
     (if cls = ''Usuario'' then
        base_model_columns @
        [(''nome'', Column), (''email'', Column), (''senha'', Column), (''permissoes'', Column),
         (''web_links'',
            Relationship \<lparr>rel_owner = ''Usuario'', rel_key = ''web_links'', rel_target = ''WebLink''\<rparr>)]
      else if cls = ''PasswordResetToken'' then
        base_model_columns @
        [(''usuario_id'', Column), (''token'', Column), (''expires_at'', Column), (''used'', Column),
         (''usuario'',
            Relationship \<lparr>rel_owner = ''PasswordResetToken'', rel_key = ''usuario'',
                          rel_target = ''Usuario''\<rparr>)]
      else if cls = ''WebLink'' then
        base_model_columns @
        [(''weblink'', Column), (''title'', Column), (''resumo'', Column), (''usuario_id'', Column),
         (''usuario'',
            Relationship \<lparr>rel_owner = ''WebLink'', rel_key = ''usuario'', rel_target = ''Usuario''\<rparr>)]
      else if cls = ''Conhecimento'' then
        [(''id'', Column), (''title'', Column), (''context'', Column), (''content'', Column),
         (''embedding'', Column)]
      else [])"

text \<open>
  The other attributes of these classes: the ones \<open>models.py\<close> declares
  (\<open>__tablename__\<close>, \<open>__repr__\<close>, and \<open>__abstract__\<close> inherited from \<open>BaseModel\<close>), the
  ones the declarative base gives every class (\<open>metadata\<close>, \<open>registry\<close>, \<open>__init__\<close>) and
  the ones every Python class has (\<open>__doc__\<close>, \<open>__module__\<close>, \<open>__dict__\<close>). Python and
  SQLAlchemy give a class further attributes that the source files do not name: for
  any other name \<open>further_class_attribute\<close> leaves open whether \<open>hasattr\<close> finds it.
\<close>

definition further_class_attribute :: "entity \<Rightarrow> string \<Rightarrow> bool" where
  "further_class_attribute cls name = undefined cls name"

definition models_plain :: "entity \<Rightarrow> string \<Rightarrow> bool" where
  "models_plain cls name =
     (name \<in> set [''__tablename__'', ''__repr__'', ''metadata'', ''registry'', ''__init__'',
                   ''__doc__'', ''__module__'', ''__dict__'']
      \<or> (name = ''__abstract__'' \<and> cls \<in> set [''Usuario'', ''PasswordResetToken'', ''WebLink''])
      \<or> further_class_attribute cls name)"

definition models :: schema where
  "models = \<lparr>sch_mapped = models_mapped, sch_plain = models_plain\<rparr>"

text \<open>
  The \<open>RELATIONSHIP_MAP\<close> that \<open>web_link/service.py\<close> and \<open>usuario/service.py\<close> pass as
  \<open>relations_map\<close>.
\<close>

definition weblink_relationship_map :: "string \<rightharpoonup> relprop" where
  "weblink_relationship_map =
     map_of [(''usuario'',
              \<lparr>rel_owner = ''WebLink'', rel_key = ''usuario'', rel_target = ''Usuario''\<rparr>)]"

definition usuario_relationship_map :: "string \<rightharpoonup> relprop" where
  "usuario_relationship_map =
     map_of [(''web_links'',
              \<lparr>rel_owner = ''Usuario'', rel_key = ''web_links'', rel_target = ''WebLink''\<rparr>)]"

definition empty_query :: query where
  "empty_query = \<lparr>q_joins = [], q_wheres = [], q_options = [], q_order_by = []\<rparr>"

section \<open>Valid specifiers\<close>

text \<open>
  Used to state which specifiers are valid: the relationships a list of segment names
  leads through, starting at a class, and the class such a chain ends in.
\<close>

fun relationship_chain :: "schema \<Rightarrow> entity \<Rightarrow> string list \<Rightarrow> relprop list option" where
  "relationship_chain sch cur [] = Some []"
| "relationship_chain sch cur (r # rs) =
     (case class_getattr sch cur r of
        Some (Relationship p) \<Rightarrow>
          (case relationship_chain sch (rel_target p) rs of
             None \<Rightarrow> None
           | Some ps \<Rightarrow> Some (p # ps))
      | _ \<Rightarrow> None)"

definition chain_end :: "entity \<Rightarrow> relprop list \<Rightarrow> entity" where
  "chain_end start ps = (if ps = [] then start else rel_target (last ps))"

text \<open>The hops a field of a filter map resolves to (none when it does not resolve).\<close>

definition hops_of :: "schema \<Rightarrow> entity \<Rightarrow> (string \<rightharpoonup> relprop) \<Rightarrow> string \<Rightarrow> relprop list" where
  "hops_of sch model_cls relations_map field_specifier =
     (case get_column_or_relationship sch model_cls field_specifier relations_map of
        Inl e \<Rightarrow> []
      | Inr (target_column, target_model, joins) \<Rightarrow> joins)"

text \<open>The value a filter map holds for a field and an operator, if any.\<close>

definition filter_lookup :: "filter_map \<Rightarrow> string \<Rightarrow> string \<Rightarrow> pyval option" where
  "filter_lookup fm field_specifier operator =
     (case map_of fm field_specifier of
        None \<Rightarrow> None
      | Some ops \<Rightarrow> map_of ops operator)"

section \<open>Single clauses\<close>


lemma py_lower_isnull: "py_lower ''isnull'' = ''isnull''"
  by code_simp

lemma py_lower_true: "py_lower ''true'' = ''true''" "py_lower ''yes'' = ''yes''" "py_lower ''false'' = ''false''"
  by code_simp+

lemma operator_isnull:
  "map_of OPERATOR_MAP ''isnull'' =
     Some (\<lambda>c v. Some (if parse_bool v then IsNull c else IsNotNull c))"
  by (simp add: OPERATOR_MAP_def)

lemma coerce_isnull: "coerce_value f ''isnull'' v = Inr v"
  by (simp add: coerce_value_def py_lower_isnull)

lemma parse_bool_parse_filter_value:
  "parse_bool (parse_filter_value v) = (py_lower v \<in> {''true'', ''yes'', ''on'', ''1''})"
  by (auto simp: parse_filter_value_def Let_def)

lemma crud_single_clause:
  assumes "get_column_or_relationship sch m f rm = Inr (c, e, js)"
    and "map_of OPERATOR_MAP (py_lower op) = Some fn"
    and "coerce_value f op v = Inr v'"
    and "fn c v' = Some filter_expression"
  shows "crud_apply_filters q sch m [(f, Ops [(op, v)])] rm =
           Inr (q\<lparr>q_joins := q_joins q @ map (\<lambda>p. (p, True)) js,
                  q_wheres := q_wheres q @ [filter_expression]\<rparr>)"
  using assms by simp

lemma bd_apply_joins_wheres:
  "bd_apply_joins js (q, joined) = (q', joined') \<Longrightarrow>
     q_wheres q' = q_wheres q \<and> q_options q' = q_options q \<and> q_order_by q' = q_order_by q"
  by (induction js arbitrary: q joined) (auto split: if_splits)

lemma bd_single_clause:
  assumes "get_column_or_relationship sch m f rm = Inr (c, e, js)"
    and "map_of OPERATOR_MAP (py_lower op) = Some fn"
    and "coerce_value f op v = Inr v'"
    and "fn c v' = Some filter_expression"
  shows "\<exists>q'. apply_filters q sch m [(f, Ops [(op, v)])] rm = Inr q' \<and>
           q_wheres q' = q_wheres q @ [filter_expression]"
proof -
  obtain q1 joined1 where j: "bd_apply_joins js (q, {}) = (q1, joined1)"
    by (cases "bd_apply_joins js (q, {})")
  have w: "q_wheres q1 = q_wheres q" using bd_apply_joins_wheres[OF j] by simp
  show ?thesis
    using assms j w
    by (auto simp: apply_filters_def Let_def split: list.splits)
qed

text \<open>
  Claim C10. With \<open>sort_by\<close> absent or empty, \<open>apply_sorting\<close> returns the query it was
  given, whatever \<open>sort_dir\<close> is: the direction is not looked at. The
  invalid-direction error therefore needs a non-empty \<open>sort_by\<close>. (The function is the
  same in crud_utils.py and utils_bd.py.)
\<close>

theorem apply_sorting_empty_sort_by:
  "apply_sorting q sch m None sort_dir rm = Inr q \<and>
   apply_sorting q sch m (Some []) sort_dir rm = Inr q \<and>
   (apply_sorting q sch m sort_by sort_dir rm = Inl (InvalidSortDirection d) \<longrightarrow>
      sort_by \<noteq> None \<and> sort_by \<noteq> Some [])"
  by (auto simp: apply_sorting_def split: option.splits if_splits)

theorem apply_sorting_empty_sort_by_witness:
  "apply_sorting empty_query models ''WebLink'' None (Some ''sideways'') Map.empty = Inr empty_query \<and>
   apply_sorting empty_query models ''WebLink'' (Some []) (Some ''sideways'') Map.empty = Inr empty_query \<and>
   apply_sorting empty_query models ''WebLink'' (Some ''title'') (Some ''sideways'') Map.empty =
     Inl (InvalidSortDirection (Some ''sideways'')) \<and>
   Some ''title'' \<noteq> None \<and> Some ''title'' \<noteq> Some []"
proof -
  have a: "apply_sorting empty_query models ''WebLink'' (Some ''title'') (Some ''sideways'') Map.empty =
     Inl (InvalidSortDirection (Some ''sideways''))"
    by code_simp
  show ?thesis
    using apply_sorting_empty_sort_by [of empty_query models "''WebLink''" "Some ''sideways''" Map.empty
        "Some ''title''" "Some ''sideways''"] a
    by simp
qed

text \<open>
  Claim C7. The selector \<open>[tenants].nome,roles.nome\<close> parses to the tree with
  \<open>tenants: {__all__: {nome: True}}\<close> and \<open>roles: {nome: True}\<close>: the bracketed segment
  nests its descendants under \<open>__all__\<close>, the dotted one nests directly.
\<close>

theorem select_mixed_syntax:
  "parse_select_fields_for_pydantic (Some ''[tenants].nome,roles.nome'') =
     Some [(''tenants'', SDict [(''__all__'', SDict [(''nome'', STrue)])]),
           (''roles'', SDict [(''nome'', STrue)])]"
  by code_simp


lemma find_sep_Some: "find_sep g s = Some (a, b) \<Longrightarrow> a \<noteq> [] \<and> b \<noteq> []"
  by (induction g s rule: find_sep.induct) (auto split: if_splits)

lemma filter_match_Some: "filter_match key = Some (f, op) \<Longrightarrow> f \<noteq> [] \<and> op \<noteq> []"
  by (auto simp: filter_match_def Let_def split: if_splits dest: find_sep_Some)

lemma parse_filters_single:
  assumes "filter_match key = Some (f, op)"
  shows "parse_filters [(key, v)] = ([(f, [(py_lower op, parse_filter_value v)])], [])"
  using assms filter_match_Some[OF assms]
  by (simp add: parse_filters_def parse_run_def parse_step_def Let_def py_lower_def)

text \<open>
  Claim C6. For a field that resolves to the column \<open>c\<close>, the clause
  \<open>(c, isnull, v)\<close> compiles to \<open>c IS NULL\<close> exactly when \<open>v\<close> lower-cased is one of
  true, yes, on, 1, and to \<open>c IS NOT NULL\<close> otherwise; this holds whether the clause
  carries the raw string or the value the parser made of it, in both \<open>apply_filters\<close>.
  In particular true and yes give IS NULL and false gives IS NOT NULL.
\<close>

theorem isnull_takes_boolean_argument:
  assumes "get_column_or_relationship sch m f rm = Inr (c, e, js)"
    and "x = VStr v \<or> x = parse_filter_value v"
  shows "crud_apply_filters q sch m [(f, Ops [(''isnull'', x)])] rm =
           Inr (q\<lparr>q_joins := q_joins q @ map (\<lambda>p. (p, True)) js,
                  q_wheres := q_wheres q @
                    [if py_lower v \<in> {''true'', ''yes'', ''on'', ''1''} then IsNull c
                     else IsNotNull c]\<rparr>) \<and>
         (\<exists>q'. apply_filters q sch m [(f, Ops [(''isnull'', x)])] rm = Inr q' \<and>
            q_wheres q' = q_wheres q @
              [if py_lower v \<in> {''true'', ''yes'', ''on'', ''1''} then IsNull c
               else IsNotNull c]) \<and>
         crud_apply_filters q sch m [(f, Ops [(''isnull'', parse_filter_value ''true'')])] rm =
           Inr (q\<lparr>q_joins := q_joins q @ map (\<lambda>p. (p, True)) js,
                  q_wheres := q_wheres q @ [IsNull c]\<rparr>) \<and>
         crud_apply_filters q sch m [(f, Ops [(''isnull'', parse_filter_value ''yes'')])] rm =
           Inr (q\<lparr>q_joins := q_joins q @ map (\<lambda>p. (p, True)) js,
                  q_wheres := q_wheres q @ [IsNull c]\<rparr>) \<and>
         crud_apply_filters q sch m [(f, Ops [(''isnull'', parse_filter_value ''false'')])] rm =
           Inr (q\<lparr>q_joins := q_joins q @ map (\<lambda>p. (p, True)) js,
                  q_wheres := q_wheres q @ [IsNotNull c]\<rparr>)"
proof -
  have pb: "parse_bool x = (py_lower v \<in> {''true'', ''yes'', ''on'', ''1''})"
    using assms(2) by (auto simp: parse_bool_parse_filter_value)
  have op: "map_of OPERATOR_MAP (py_lower ''isnull'') =
              Some (\<lambda>c v. Some (if parse_bool v then IsNull c else IsNotNull c))"
    by (simp only: py_lower_isnull operator_isnull)
  have crud: "crud_apply_filters q sch m [(f, Ops [(''isnull'', y)])] rm =
           Inr (q\<lparr>q_joins := q_joins q @ map (\<lambda>p. (p, True)) js,
                  q_wheres := q_wheres q @ [if parse_bool y then IsNull c else IsNotNull c]\<rparr>)"
    for y
    by (rule crud_single_clause[OF assms(1) op coerce_isnull]) simp
  have bd: "\<exists>q'. apply_filters q sch m [(f, Ops [(''isnull'', x)])] rm = Inr q' \<and>
           q_wheres q' = q_wheres q @ [if parse_bool x then IsNull c else IsNotNull c]"
    by (rule bd_single_clause[OF assms(1) op coerce_isnull]) simp
  have t: "parse_bool (parse_filter_value ''true'')" "parse_bool (parse_filter_value ''yes'')"
    "\<not> parse_bool (parse_filter_value ''false'')"
    by (simp_all add: parse_bool_parse_filter_value py_lower_true)
  show ?thesis
    using crud[of x] crud[of "parse_filter_value ''true''"] crud[of "parse_filter_value ''yes''"]
      crud[of "parse_filter_value ''false''"] bd pb t
    by simp
qed

theorem isnull_takes_boolean_argument_witness:
  "get_column_or_relationship models ''WebLink'' ''usuario.nome''
     weblink_relationship_map =
     Inr (ColAttr ''Usuario'' ''nome'', ''Usuario'',
          [\<lparr>rel_owner = ''WebLink'', rel_key = ''usuario'', rel_target = ''Usuario''\<rparr>]) \<and>
   crud_apply_filters empty_query models ''WebLink''
     [(''usuario.nome'', Ops [(''isnull'', parse_filter_value ''YES'')])]
     weblink_relationship_map =
     Inr \<lparr>q_joins = [(\<lparr>rel_owner = ''WebLink'', rel_key = ''usuario'', rel_target = ''Usuario''\<rparr>, True)],
          q_wheres = [IsNull (ColAttr ''Usuario'' ''nome'')], q_options = [], q_order_by = []\<rparr>"
proof -
  have h: "get_column_or_relationship models ''WebLink'' ''usuario.nome''
     weblink_relationship_map =
     Inr (ColAttr ''Usuario'' ''nome'', ''Usuario'',
          [\<lparr>rel_owner = ''WebLink'', rel_key = ''usuario'', rel_target = ''Usuario''\<rparr>])"
    by code_simp
  have l: "py_lower ''YES'' = ''yes''" by code_simp
  show ?thesis
    using h isnull_takes_boolean_argument [OF h, where x="parse_filter_value ''YES''"
        and v="''YES''" and q=empty_query]
    by (simp add: l empty_query_def del: crud_apply_filters.simps crud_apply_operators.simps)
qed

section \<open>Unsupported operators\<close>














text \<open>
  A clause that fails before the unsupported one raises first: \<open>like\<close> on \<open>True\<close> makes
  the operator function raise, and the wrapped error of the \<open>try\<close> block is the result.
\<close>

lemma operator_function_error_first:
  "crud_apply_filters empty_query models ''WebLink''
     [(''title'', Ops [(''like'', VBool True), (''bogus'', VStr ''x'')])] weblink_relationship_map =
     Inl (FilterApplicationError ''like'' (VBool True) ''title'') \<and>
   apply_filters empty_query models ''WebLink''
     [(''title'', Ops [(''like'', VBool True), (''bogus'', VStr ''x'')])] weblink_relationship_map =
     Inl (FilterApplicationError ''like'' (VBool True) ''title'')"
  by code_simp


section \<open>Splitting selectors, and the load planner\<close>


lemma py_split_nonempty: "py_split c s \<noteq> []"
  by (induction s) (auto split: list.splits)

lemma py_split_no_sep: "c \<notin> set a \<Longrightarrow> py_split c a = [a]"
  by (induction a) auto

lemma py_split_append: "c \<notin> set a \<Longrightarrow> py_split c (a @ c # r) = a # py_split c r"
  by (induction a) auto

lemma word_char_not_special:
  "word_char c \<Longrightarrow> c \<noteq> CHR '','' \<and> c \<noteq> CHR ''.'' \<and> c \<noteq> CHR ''['' \<and> \<not> py_isspace c"
  by (auto simp: word_char_def py_isspace_def Let_def)

lemma word_no_sep:
  "list_all word_char a \<Longrightarrow> CHR '','' \<notin> set a \<and> CHR ''.'' \<notin> set a"
  using word_char_not_special by (auto simp: list_all_iff)

lemma py_strip_word: "list_all word_char a \<Longrightarrow> py_strip a = a"
proof (cases a rule: rev_cases)
  case Nil
  then show ?thesis by (simp add: py_strip_def)
next
  case (snoc xs x)
  assume w: "list_all word_char a"
  then have l: "\<not> py_isspace x" using snoc word_char_not_special by simp
  have h: "dropWhile py_isspace a = a"
    using w word_char_not_special by (cases a) auto
  have "rev (dropWhile py_isspace (rev a)) = a"
    using l by (simp add: snoc)
  then show ?thesis
    by (simp only: py_strip_def h)
qed

lemma split_fields_pair:
  assumes "list_all word_char a" and "list_all word_char b" and "a \<noteq> []"
  shows "split_fields (a @ CHR '','' # b) = (if b = [] then [a] else [a, b])"
  using assms word_no_sep[OF assms(1)] word_no_sep[OF assms(2)]
  by (simp add: split_fields_def py_split_append py_split_no_sep py_strip_word)

lemma extract_field_word:
  assumes "list_all word_char a" and "a \<noteq> []"
  shows "extract_field keys a = (if a \<in> keys then {a} else {})"
proof -
  obtain x xs where a: "a = x # xs" using assms(2) by (cases a) auto
  have "x \<noteq> CHR ''[''" using assms(1) a word_char_not_special by auto
  then have t: "take (Suc 0) a \<noteq> ''[''" by (simp add: a)
  have ps: "py_split CHR ''.'' a = [a]"
    using word_no_sep[OF assms(1)] by (simp add: py_split_no_sep)
  show ?thesis
    by (simp add: extract_field_def t ps)
qed

text \<open>
  Claim C3. With an absent or empty include parameter \<open>apply_select_load_options\<close>
  gives every relationship of the class a \<open>noload\<close> option and no \<open>selectinload\<close>.
  With the include \<open>a,b\<close>, where \<open>a\<close> is a relationship of the class and the name
  \<open>b\<close> is not, \<open>a\<close> gets \<open>selectinload\<close>, every other relationship gets \<open>noload\<close>,
  and \<open>b\<close> leaves no trace and raises nothing (the function has no error result).
  Names are identifiers: letters, digits and underscores.
\<close>

theorem load_planner_default_and_ignore:
  "(include_param = None \<or> include_param = Some [] \<longrightarrow>
      apply_select_load_options q sch m include_param =
        (if relationship_keys sch m = [] then q
         else q\<lparr>q_options := q_options q @ map (Noload m) (relationship_keys sch m)\<rparr>)) \<and>
   (a \<in> set (relationship_keys sch m) \<and> b \<notin> set (relationship_keys sch m) \<and>
    a \<noteq> [] \<and> list_all word_char a \<and> list_all word_char b \<longrightarrow>
      apply_select_load_options q sch m (Some (a @ '','' @ b)) =
        q\<lparr>q_options := q_options q @
             map (\<lambda>r. if r = a then Selectinload m r else Noload m r) (relationship_keys sch m)\<rparr>)"
proof (intro conjI impI)
  assume "include_param = None \<or> include_param = Some []"
  then have "extract_relationships_from_select_hybrid include_param (set (relationship_keys sch m)) = {}"
    by (auto simp: extract_relationships_from_select_hybrid_def)
  then show "apply_select_load_options q sch m include_param =
        (if relationship_keys sch m = [] then q
         else q\<lparr>q_options := q_options q @ map (Noload m) (relationship_keys sch m)\<rparr>)"
    by (simp add: apply_select_load_options_def Let_def)
next
  assume h: "a \<in> set (relationship_keys sch m) \<and> b \<notin> set (relationship_keys sch m) \<and>
    a \<noteq> [] \<and> list_all word_char a \<and> list_all word_char b"
  then have sf: "split_fields (a @ CHR '','' # b) = (if b = [] then [a] else [a, b])"
    using split_fields_pair by blast
  have ea: "extract_field (set (relationship_keys sch m)) a = {a}"
    using h by (simp add: extract_field_word)
  have eb: "b \<noteq> [] \<Longrightarrow> extract_field (set (relationship_keys sch m)) b = {}"
    using h by (simp add: extract_field_word)
  have "extract_relationships_from_select_hybrid (Some (a @ '','' @ b))
          (set (relationship_keys sch m)) = {a}"
    using ea eb by (simp add: extract_relationships_from_select_hybrid_def sf)
  moreover have "relationship_keys sch m \<noteq> []" using h by auto
  ultimately show "apply_select_load_options q sch m (Some (a @ '','' @ b)) =
        q\<lparr>q_options := q_options q @
             map (\<lambda>r. if r = a then Selectinload m r else Noload m r) (relationship_keys sch m)\<rparr>"
    by (simp add: apply_select_load_options_def Let_def)
qed

theorem load_planner_default_and_ignore_witness:
  "apply_select_load_options empty_query models ''Usuario'' None =
     \<lparr>q_joins = [], q_wheres = [], q_options = [Noload ''Usuario'' ''web_links''], q_order_by = []\<rparr> \<and>
   ''web_links'' \<in> set (relationship_keys models ''Usuario'') \<and>
   ''tenants'' \<notin> set (relationship_keys models ''Usuario'') \<and>
   list_all word_char ''web_links'' \<and> list_all word_char ''tenants'' \<and>
   apply_select_load_options empty_query models ''Usuario'' (Some ''web_links,tenants'') =
     \<lparr>q_joins = [], q_wheres = [], q_options = [Selectinload ''Usuario'' ''web_links''],
      q_order_by = []\<rparr>"
proof -
  have k: "relationship_keys models ''Usuario'' = [''web_links'']" by code_simp
  have w: "list_all word_char ''web_links''" "list_all word_char ''tenants''" by code_simp+
  show ?thesis
    using k w load_planner_default_and_ignore [where include_param=None and q=empty_query
        and sch=models and m="''Usuario''" and a="''web_links''" and b="''tenants''"]
    by (simp add: empty_query_def)
qed

section \<open>Path resolution\<close>
lemma chain_end_Cons: "chain_end start (p # ps) = chain_end (rel_target p) ps"
  by (simp add: chain_end_def)

lemma relationship_chain_length:
  "relationship_chain sch cur rs = Some ps \<Longrightarrow> length ps = length rs"
  by (induction rs arbitrary: cur ps) (auto split: option.splits member.splits)

lemma resolve_parts_nested:
  assumes "relationship_chain sch cur rs = Some ps"
    and "class_getattr sch (chain_end cur ps) c = Some Column"
  shows "resolve_parts sch model_cls spec rm cur (Suc i) (rs @ [c]) acc =
           Inr (ColAttr (chain_end cur ps) c, chain_end cur ps, acc @ ps)"
  using assms
proof (induction rs arbitrary: cur ps i acc)
  case Nil
  then show ?case by (simp add: chain_end_def)
next
  case (Cons r rs)
  then show ?case
    by (auto simp: chain_end_Cons split: option.splits member.splits)
qed

lemma join_strings_split:
  assumes "segs \<noteq> []" and "\<forall>s \<in> set segs. c \<notin> set s"
  shows "py_split c (join_strings [c] segs) = segs"
  using assms
proof (induction segs)
  case Nil
  then show ?case by simp
next
  case (Cons x xs)
  show ?case
  proof (cases xs)
    case Nil
    then show ?thesis using Cons.prems by (simp add: py_split_no_sep)
  next
    case (Cons y ys)
    then have "py_split c (join_strings [c] xs) = xs"
      using Cons.IH Cons.prems by simp
    then show ?thesis
      using Cons Cons.prems by (simp add: py_split_append)
  qed
qed

text \<open>
  Claim C4. A valid specifier is a chain of relationship names \<open>rs\<close>, each a
  relationship of the class the previous one leads to, followed by a column \<open>c\<close> of
  the class the chain ends in, joined by dots; \<open>relations_map\<close> holds the first
  relationship under its name, as the \<open>RELATIONSHIP_MAP\<close> of a service does. Resolution then
  succeeds, the list of hops has one entry per relationship segment, and the column
  returned belongs to the class the last hop leads to. This holds at every depth, so
  at depths 1 to 3.
\<close>

theorem resolve_valid_specifier:
  assumes "relationship_chain sch model_cls rs = Some ps"
    and "class_getattr sch (chain_end model_cls ps) c = Some Column"
    and "rs \<noteq> [] \<longrightarrow> relations_map (hd rs) = Some (hd ps)"
    and "\<forall>s \<in> set (rs @ [c]). CHR ''.'' \<notin> set s"
  shows "get_column_or_relationship sch model_cls (join_strings ''.'' (rs @ [c])) relations_map =
           Inr (ColAttr (chain_end model_cls ps) c, chain_end model_cls ps, ps) \<and>
         length ps = length rs \<and>
         (ps \<noteq> [] \<longrightarrow> chain_end model_cls ps = rel_target (last ps))"
proof -
  have sp: "py_split CHR ''.'' (join_strings ''.'' (rs @ [c])) = rs @ [c]"
    using assms(4) by (intro join_strings_split) auto
  have res: "resolve_parts sch model_cls spec relations_map model_cls 0 (rs @ [c]) [] =
           Inr (ColAttr (chain_end model_cls ps) c, chain_end model_cls ps, ps)" for spec
  proof (cases rs)
    case Nil
    then show ?thesis using assms(1,2) by (simp add: chain_end_def)
  next
    case (Cons r rs')
    then obtain p ps' where p: "class_getattr sch model_cls r = Some (Relationship p)"
      "relationship_chain sch (rel_target p) rs' = Some ps'" "ps = p # ps'"
      using assms(1) by (auto split: option.splits member.splits)
    have rm: "relations_map r = Some p" using assms(3) Cons p by simp
    have col: "class_getattr sch (chain_end (rel_target p) ps') c = Some Column"
      using assms(2) p by (simp add: chain_end_Cons)
    show ?thesis
      using resolve_parts_nested[OF p(2) col, of model_cls spec relations_map 0 "[p]"] p rm Cons
      by (simp add: chain_end_Cons)
  qed
  show ?thesis
    using res relationship_chain_length[OF assms(1)]
    by (simp add: get_column_or_relationship_def sp chain_end_def)
qed

theorem resolve_valid_specifier_witness:
  "relationship_chain models ''Usuario'' [''web_links'', ''usuario''] =
     Some [\<lparr>rel_owner = ''Usuario'', rel_key = ''web_links'', rel_target = ''WebLink''\<rparr>,
           \<lparr>rel_owner = ''WebLink'', rel_key = ''usuario'', rel_target = ''Usuario''\<rparr>] \<and>
   get_column_or_relationship models ''Usuario'' ''web_links.usuario.nome''
     usuario_relationship_map =
     Inr (ColAttr ''Usuario'' ''nome'', ''Usuario'',
          [\<lparr>rel_owner = ''Usuario'', rel_key = ''web_links'', rel_target = ''WebLink''\<rparr>,
           \<lparr>rel_owner = ''WebLink'', rel_key = ''usuario'', rel_target = ''Usuario''\<rparr>])"
proof -
  let ?ps = "[\<lparr>rel_owner = ''Usuario'', rel_key = ''web_links'', rel_target = ''WebLink''\<rparr>,
           \<lparr>rel_owner = ''WebLink'', rel_key = ''usuario'', rel_target = ''Usuario''\<rparr>]"
  have a: "relationship_chain models ''Usuario'' [''web_links'', ''usuario''] = Some ?ps"
    by code_simp
  have e: "chain_end ''Usuario'' ?ps = ''Usuario''"
    by (simp add: chain_end_def)
  have b: "class_getattr models (chain_end ''Usuario'' ?ps) ''nome'' = Some Column"
    unfolding e by code_simp
  have c: "[''web_links'', ''usuario''] \<noteq> [] \<longrightarrow>
             usuario_relationship_map (hd [''web_links'', ''usuario'']) = Some (hd ?ps)"
    by (simp add: usuario_relationship_map_def)
  have d: "\<forall>s \<in> set ([''web_links'', ''usuario''] @ [''nome'']). CHR ''.'' \<notin> set s"
    by simp
  show ?thesis
    using a b c d resolve_valid_specifier [where sch=models and model_cls="''Usuario''"
        and rs="[''web_links'', ''usuario'']" and ps="?ps" and c="''nome''"
        and relations_map=usuario_relationship_map]
    by (simp add: e)
qed

section \<open>The selection tree is not empty\<close>


lemma update_nonempty: "AList.update k v al \<noteq> []"
  by (cases al) auto

lemma insert_parts_nonempty: "parts \<noteq> [] \<or> d \<noteq> [] \<Longrightarrow> insert_parts parts d \<noteq> []"
  by (cases parts) (auto simp: update_nonempty Let_def split: option.splits seltree.splits)

lemma fold_insert_parts_nonempty:
  "d \<noteq> [] \<Longrightarrow> foldl (\<lambda>d field_path. insert_parts (py_split c field_path) d) d fs \<noteq> []"
  by (induction fs arbitrary: d) (auto simp: insert_parts_nonempty)

lemma split_fields_empty_string: "split_fields [] = []"
  by (simp add: split_fields_def py_strip_def)

text \<open>
  Claim C8 says that a selector that is non-empty after trimming never parses to
  \<open>None\<close>. The selector \<open>,\<close> is non-empty after trimming, yet all its items are empty
  and the parser returns \<open>None\<close> at its \<open>if not fields_to_process\<close> guard.
\<close>

theorem select_tree_empty_counterexample:
  "py_strip '','' \<noteq> [] \<and> parse_select_fields_for_pydantic (Some '','') = None"
  by code_simp

text \<open>
  Claim C8, amended. A selector with at least one comma-separated item that is non-empty
  after trimming parses to a non-empty tree; a selector none of whose items is (such as
  \<open>,\<close>) parses to \<open>None\<close>.
\<close>

theorem select_tree_nonempty:
  "(split_fields s \<noteq> [] \<longrightarrow>
      (\<exists>d. parse_select_fields_for_pydantic (Some s) = Some d \<and> d \<noteq> [])) \<and>
   (split_fields s = [] \<longrightarrow> parse_select_fields_for_pydantic (Some s) = None)"
proof (intro conjI impI)
  assume ne: "split_fields s \<noteq> []"
  then obtain f fs where fs: "split_fields s = f # fs" by (cases "split_fields s") auto
  have s: "s \<noteq> []" using ne split_fields_empty_string by auto
  have "insert_parts (py_split CHR ''.'' f) [] \<noteq> []"
    by (simp add: insert_parts_nonempty py_split_nonempty)
  then have "foldl (\<lambda>d field_path. insert_parts (py_split CHR ''.'' field_path) d) [] (f # fs) \<noteq> []"
    by (simp add: fold_insert_parts_nonempty)
  then show "\<exists>d. parse_select_fields_for_pydantic (Some s) = Some d \<and> d \<noteq> []"
    using s by (simp add: parse_select_fields_for_pydantic_def fs Let_def)
next
  assume "split_fields s = []"
  then show "parse_select_fields_for_pydantic (Some s) = None"
    by (simp add: parse_select_fields_for_pydantic_def)
qed

theorem select_tree_nonempty_witness:
  "split_fields '' id , , [items].name '' \<noteq> [] \<and>
   parse_select_fields_for_pydantic (Some '' id , , [items].name '') =
     Some [(''id'', STrue), (''items'', SDict [(''__all__'', SDict [(''name'', STrue)])])] \<and>
   split_fields '' , '' = [] \<and> parse_select_fields_for_pydantic (Some '' , '') = None"
proof -
  have a: "split_fields '' id , , [items].name '' \<noteq> []" by code_simp
  have b: "split_fields '' , '' = []" by code_simp
  have c: "parse_select_fields_for_pydantic (Some '' id , , [items].name '') =
     Some [(''id'', STrue), (''items'', SDict [(''__all__'', SDict [(''name'', STrue)])])]"
    by code_simp
  show ?thesis
    using a b c select_tree_nonempty [of "'' id , , [items].name ''"]
      select_tree_nonempty [of "'' , ''"]
    by blast
qed

section \<open>Repeated filter keys\<close>


lemma parse_run_snoc: "parse_run (qs @ [kv]) = parse_step (parse_run qs) kv"
  by (simp add: parse_run_def)

lemma parse_step_processed:
  "processed_keys (parse_step st (k, v)) =
     (if filter_match k = None then processed_keys st else insert k (processed_keys st))"
  by (auto simp: parse_step_def Let_def py_lower_def split: option.splits dest: filter_match_Some)

lemma parse_run_processed:
  "processed_keys (parse_run qs) = {k \<in> fst ` set qs. filter_match k \<noteq> None}"
proof (induction qs rule: rev_induct)
  case Nil
  then show ?case by (simp add: parse_run_def)
next
  case (snoc kv qs)
  obtain k v where kv: "kv = (k, v)" by (cases kv)
  show ?case
    unfolding parse_run_snoc kv parse_step_processed snoc.IH
    by auto
qed

text \<open>
  Claim C2 says that when the same field and operator come in several recognized
  entries, the last value is kept and a diagnostic is emitted. With the key
  \<open>filter[name][eq]\<close> given twice, the second entry is skipped at the
  \<open>if key in processed_keys\<close> guard: the first value stays and nothing is logged.
\<close>

theorem repeated_key_counterexample:
  "parse_filters [(''filter[name][eq]'', ''a''), (''filter[name][eq]'', ''b'')] =
     ([(''name'', [(''eq'', VStr ''a'')])], []) \<and>
   parse_filter_value ''b'' = VStr ''b''"
  by code_simp

text \<open>
  Claim C2, amended. For a recognized key: an entry whose key already occurred earlier in
  the multi-map changes nothing, so the first value stays and no diagnostic is emitted;
  an entry whose key did not occur before, but whose field and lower-cased operator are
  already in the filter map, replaces the stored value with its own and appends the
  overwrite diagnostic.
\<close>

theorem repeated_key_first_wins:
  assumes "filter_match key = Some (f, op)"
  shows "(key \<in> fst ` set qs \<longrightarrow> parse_filters (qs @ [(key, v)]) = parse_filters qs) \<and>
         (key \<notin> fst ` set qs \<and> map_of (fst (parse_filters qs)) f = Some ops \<and>
          map_of ops (py_lower op) = Some old \<longrightarrow>
            (\<exists>ops'. map_of (fst (parse_filters (qs @ [(key, v)]))) f = Some ops' \<and>
                     map_of ops' (py_lower op) = Some (parse_filter_value v)) \<and>
            snd (parse_filters (qs @ [(key, v)])) =
              snd (parse_filters qs) @ [Overwrite f (py_lower op) v old])"
proof (intro conjI impI)
  assume "key \<in> fst ` set qs"
  then have "key \<in> processed_keys (parse_run qs)"
    using assms by (simp add: parse_run_processed)
  then show "parse_filters (qs @ [(key, v)]) = parse_filters qs"
    by (simp add: parse_filters_def parse_run_snoc parse_step_def)
next
  assume h: "key \<notin> fst ` set qs \<and> map_of (fst (parse_filters qs)) f = Some ops \<and>
          map_of ops (py_lower op) = Some old"
  then have np: "key \<notin> processed_keys (parse_run qs)"
    by (simp add: parse_run_processed)
  have ne: "f \<noteq> []" "py_lower op \<noteq> []"
    using filter_match_Some[OF assms] by (simp_all add: py_lower_def)
  have fl: "map_of (filters (parse_run qs)) f = Some ops"
    using h by (simp add: parse_filters_def Let_def)
  have st: "parse_step (parse_run qs) (key, v) =
          \<lparr>filters = AList.update f (AList.update (py_lower op) (parse_filter_value v) ops)
                       (filters (parse_run qs)),
           processed_keys = insert key (processed_keys (parse_run qs)),
           warnings = warnings (parse_run qs) @ [Overwrite f (py_lower op) v old]\<rparr>"
    using np ne fl h assms by (simp add: parse_step_def Let_def)
  show "\<exists>ops'. map_of (fst (parse_filters (qs @ [(key, v)]))) f = Some ops' \<and>
                     map_of ops' (py_lower op) = Some (parse_filter_value v)"
    by (simp add: parse_filters_def parse_run_snoc st Let_def update_conv')
  show "snd (parse_filters (qs @ [(key, v)])) =
              snd (parse_filters qs) @ [Overwrite f (py_lower op) v old]"
    by (simp add: parse_filters_def parse_run_snoc st Let_def)
qed

theorem repeated_key_first_wins_witness:
  "filter_match ''filter[name][EQ]'' = Some (''name'', ''EQ'') \<and>
   ''filter[name][EQ]'' \<in> fst ` set [(''filter[name][EQ]'', ''a'')] \<and>
   parse_filters ([(''filter[name][EQ]'', ''a'')] @ [(''filter[name][EQ]'', ''b'')]) =
     parse_filters [(''filter[name][EQ]'', ''a'')] \<and>
   ''filter[name][EQ]'' \<notin> fst ` set [(''filter[name][eq]'', ''a'')] \<and>
   map_of (fst (parse_filters [(''filter[name][eq]'', ''a'')])) ''name'' = Some [(''eq'', VStr ''a'')] \<and>
   map_of [(''eq'', VStr ''a'')] (py_lower ''EQ'') = Some (VStr ''a'') \<and>
   snd (parse_filters ([(''filter[name][eq]'', ''a'')] @ [(''filter[name][EQ]'', ''b'')])) =
     snd (parse_filters [(''filter[name][eq]'', ''a'')]) @
       [Overwrite ''name'' (py_lower ''EQ'') ''b'' (VStr ''a'')]"
proof -
  have m: "filter_match ''filter[name][EQ]'' = Some (''name'', ''EQ'')" by code_simp
  have a: "''filter[name][EQ]'' \<in> fst ` set [(''filter[name][EQ]'', ''a'')]" by simp
  have b: "''filter[name][EQ]'' \<notin> fst ` set [(''filter[name][eq]'', ''a'')]" by simp
  have c: "map_of (fst (parse_filters [(''filter[name][eq]'', ''a'')])) ''name'' =
             Some [(''eq'', VStr ''a'')]"
    by code_simp
  have d: "map_of [(''eq'', VStr ''a'')] (py_lower ''EQ'') = Some (VStr ''a'')" by code_simp
  note t1 = repeated_key_first_wins [OF m, where qs="[(''filter[name][EQ]'', ''a'')]" and v="''b''"]
  note t2 = repeated_key_first_wins [OF m, where qs="[(''filter[name][eq]'', ''a'')]" and v="''b''"
      and ops="[(''eq'', VStr ''a'')]" and old="VStr ''a''"]
  show ?thesis
    using m a b c d t1 t2 by blast
qed

section \<open>Joins\<close>


lemma bd_apply_joins_inv:
  assumes "bd_apply_joins js (q, joined) = (q', joined')"
    and "q_joins q = base @ map (\<lambda>p. (p, True)) new" and "distinct new" and "set new = joined"
  shows "\<exists>new'. q_joins q' = base @ map (\<lambda>p. (p, True)) new' \<and> distinct new' \<and>
           set new' = joined' \<and> joined' = joined \<union> set js"
  using assms
proof (induction js arbitrary: q joined new)
  case Nil
  then show ?case by auto
next
  case (Cons p js)
  show ?case
  proof (cases "p \<in> joined")
    case True
    then have "bd_apply_joins js (q, joined) = (q', joined')" using Cons.prems(1) by simp
    from Cons.IH[OF this Cons.prems(2,3,4)] show ?thesis using True by auto
  next
    case False
    then have s: "bd_apply_joins js (q\<lparr>q_joins := q_joins q @ [(p, True)]\<rparr>, insert p joined) =
                    (q', joined')"
      using Cons.prems(1) by simp
    have a: "q_joins (q\<lparr>q_joins := q_joins q @ [(p, True)]\<rparr>) =
               base @ map (\<lambda>p. (p, True)) (new @ [p])"
      using Cons.prems(2) by simp
    have b: "distinct (new @ [p])" using Cons.prems(3,4) False by simp
    have c: "set (new @ [p]) = insert p joined" using Cons.prems(4) by simp
    from Cons.IH[OF s a b c] show ?thesis by auto
  qed
qed

lemma bd_apply_operators_joins:
  "bd_apply_operators f c js ops st = Inr st' \<Longrightarrow> q_joins (fst st') = q_joins (fst st)"
proof (induction ops arbitrary: st js)
  case Nil
  then show ?case by simp
next
  case (Cons a ops)
  obtain o' w where a: "a = (o', w)" by (cases a)
  obtain q ap where st: "st = (q, ap)" by (cases st)
  show ?case
    using Cons.prems unfolding a st
    by (auto simp: Let_def split: option.splits sum.splits list.splits if_splits
        dest!: Cons.IH)
qed

lemma bd_apply_fields_inv:
  assumes "bd_apply_fields sch m rm fp (q, joined, ap) = Inr (q', joined', ap')"
    and "q_joins q = base @ map (\<lambda>p. (p, True)) new" and "distinct new" and "set new = joined"
  shows "\<exists>new'. q_joins q' = base @ map (\<lambda>p. (p, True)) new' \<and> distinct new' \<and>
           set new' = joined' \<and>
           joined' = joined \<union> (\<Union>f \<in> fst ` set fp. set (hops_of sch m rm f))"
  using assms
proof (induction fp arbitrary: q joined ap new)
  case Nil
  then show ?case by auto
next
  case (Cons a fp)
  obtain f d where a: "a = (f, d)" by (cases a)
  from Cons.prems(1) obtain ops c e js where
    d: "d = Ops ops" and r: "get_column_or_relationship sch m f rm = Inr (c, e, js)"
    unfolding a by (auto split: opsval.splits sum.splits)
  obtain q1 joined1 where j: "bd_apply_joins js (q, joined) = (q1, joined1)"
    by (cases "bd_apply_joins js (q, joined)")
  from Cons.prems(1) obtain q2 ap2 where
    o: "bd_apply_operators f c js ops (q1, ap) = Inr (q2, ap2)" and
    rest: "bd_apply_fields sch m rm fp (q2, joined1, ap2) = Inr (q', joined', ap')"
    unfolding a d by (auto simp: r j split: sum.splits)
  from bd_apply_joins_inv[OF j Cons.prems(2,3,4)] obtain new1 where
    n1: "q_joins q1 = base @ map (\<lambda>p. (p, True)) new1" "distinct new1" "set new1 = joined1"
    "joined1 = joined \<union> set js"
    by blast
  have "q_joins q2 = q_joins q1" using bd_apply_operators_joins[OF o] by simp
  then have n2: "q_joins q2 = base @ map (\<lambda>p. (p, True)) new1" using n1(1) by simp
  have h: "hops_of sch m rm f = js" by (simp add: hops_of_def r)
  from Cons.IH[OF rest n2 n1(2,3)] show ?case
    using n1(4) h by (auto simp: a)
qed

lemma crud_apply_operators_joins:
  "crud_apply_operators f c ops q = Inr q' \<Longrightarrow> q_joins q' = q_joins q"
proof (induction ops arbitrary: q)
  case Nil
  then show ?case by simp
next
  case (Cons a ops)
  obtain o' w where a: "a = (o', w)" by (cases a)
  show ?case
    using Cons.prems unfolding a
    by (auto split: option.splits sum.splits dest!: Cons.IH)
qed

lemma crud_apply_filters_joins:
  "crud_apply_filters q sch m fp rm = Inr q' \<Longrightarrow>
     q_joins q' = q_joins q @ map (\<lambda>p. (p, True)) (concat (map (hops_of sch m rm) (map fst fp)))"
proof (induction fp arbitrary: q)
  case Nil
  then show ?case by simp
next
  case (Cons a fp)
  obtain f d where a: "a = (f, d)" by (cases a)
  from Cons.prems obtain ops c e js q1 where
    d: "d = Ops ops" and r: "get_column_or_relationship sch m f rm = Inr (c, e, js)" and
    o: "crud_apply_operators f c ops (q\<lparr>q_joins := q_joins q @ map (\<lambda>p. (p, True)) js\<rparr>) = Inr q1" and
    rest: "crud_apply_filters q1 sch m fp rm = Inr q'"
    unfolding a by (auto split: opsval.splits sum.splits)
  have h: "hops_of sch m rm f = js" by (simp add: hops_of_def r)
  show ?case
    using Cons.IH[OF rest] crud_apply_operators_joins[OF o] h by (simp add: a)
qed

lemma apply_sorting_joins:
  assumes "apply_sorting q sch m (Some sb) sort_dir rm = Inr q'" and "sb \<noteq> []"
  shows "q_joins q' = q_joins q @ map (\<lambda>p. (p, True)) (hops_of sch m rm sb)"
  using assms
  by (auto simp: apply_sorting_def hops_of_def Let_def split: if_splits sum.splits)


text \<open>
  Claim C1 says that after \<open>apply_filters\<close> and \<open>apply_sorting\<close> the query carries
  exactly one join per relationship. On \<open>WebLink\<close>, with two filter clauses and the sort
  all going through \<open>usuario\<close>: \<open>apply_filters\<close> of utils_bd.py joins \<open>usuario\<close> once,
  \<open>apply_sorting\<close> then joins it again, and \<open>apply_filters\<close> of crud_utils.py alone joins
  it twice.
\<close>

theorem shared_relationship_joined_twice_counterexample:
  "apply_filters empty_query models ''WebLink''
     [(''usuario.nome'', Ops [(''eq'', VStr ''x'')]), (''usuario.email'', Ops [(''like'', VStr ''y'')])]
     weblink_relationship_map =
     Inr \<lparr>q_joins = [(\<lparr>rel_owner = ''WebLink'', rel_key = ''usuario'', rel_target = ''Usuario''\<rparr>, True)],
        q_wheres = [Eq (ColAttr ''Usuario'' ''nome'') (VStr ''x''),
                    Like (ColAttr ''Usuario'' ''email'') (VStr ''y'')],
        q_options = [LoaderCriteria \<lparr>rel_owner = ''WebLink'', rel_key = ''usuario'', rel_target = ''Usuario''\<rparr>
                       (Eq (ColAttr ''Usuario'' ''nome'') (VStr ''x'')),
                     LoaderCriteria \<lparr>rel_owner = ''WebLink'', rel_key = ''usuario'', rel_target = ''Usuario''\<rparr>
                       (Like (ColAttr ''Usuario'' ''email'') (VStr ''y''))],
        q_order_by = []\<rparr> \<and>
   apply_sorting
     \<lparr>q_joins = [(\<lparr>rel_owner = ''WebLink'', rel_key = ''usuario'', rel_target = ''Usuario''\<rparr>, True)],
        q_wheres = [Eq (ColAttr ''Usuario'' ''nome'') (VStr ''x''),
                    Like (ColAttr ''Usuario'' ''email'') (VStr ''y'')],
        q_options = [LoaderCriteria \<lparr>rel_owner = ''WebLink'', rel_key = ''usuario'', rel_target = ''Usuario''\<rparr>
                       (Eq (ColAttr ''Usuario'' ''nome'') (VStr ''x'')),
                     LoaderCriteria \<lparr>rel_owner = ''WebLink'', rel_key = ''usuario'', rel_target = ''Usuario''\<rparr>
                       (Like (ColAttr ''Usuario'' ''email'') (VStr ''y''))],
        q_order_by = []\<rparr>
     models ''WebLink'' (Some ''usuario.nome'') (Some ''asc'') weblink_relationship_map =
     Inr \<lparr>q_joins = [(\<lparr>rel_owner = ''WebLink'', rel_key = ''usuario'', rel_target = ''Usuario''\<rparr>, True),
                   (\<lparr>rel_owner = ''WebLink'', rel_key = ''usuario'', rel_target = ''Usuario''\<rparr>, True)],
        q_wheres = [Eq (ColAttr ''Usuario'' ''nome'') (VStr ''x''),
                    Like (ColAttr ''Usuario'' ''email'') (VStr ''y'')],
        q_options = [LoaderCriteria \<lparr>rel_owner = ''WebLink'', rel_key = ''usuario'', rel_target = ''Usuario''\<rparr>
                       (Eq (ColAttr ''Usuario'' ''nome'') (VStr ''x'')),
                     LoaderCriteria \<lparr>rel_owner = ''WebLink'', rel_key = ''usuario'', rel_target = ''Usuario''\<rparr>
                       (Like (ColAttr ''Usuario'' ''email'') (VStr ''y''))],
        q_order_by = [Asc (ColAttr ''Usuario'' ''nome'')]\<rparr> \<and>
   \<not> distinct (q_joins
     \<lparr>q_joins = [(\<lparr>rel_owner = ''WebLink'', rel_key = ''usuario'', rel_target = ''Usuario''\<rparr>, True),
                   (\<lparr>rel_owner = ''WebLink'', rel_key = ''usuario'', rel_target = ''Usuario''\<rparr>, True)],
        q_wheres = [Eq (ColAttr ''Usuario'' ''nome'') (VStr ''x''),
                    Like (ColAttr ''Usuario'' ''email'') (VStr ''y'')],
        q_options = [LoaderCriteria \<lparr>rel_owner = ''WebLink'', rel_key = ''usuario'', rel_target = ''Usuario''\<rparr>
                       (Eq (ColAttr ''Usuario'' ''nome'') (VStr ''x'')),
                     LoaderCriteria \<lparr>rel_owner = ''WebLink'', rel_key = ''usuario'', rel_target = ''Usuario''\<rparr>
                       (Like (ColAttr ''Usuario'' ''email'') (VStr ''y''))],
        q_order_by = [Asc (ColAttr ''Usuario'' ''nome'')]\<rparr>) \<and>
   crud_apply_filters empty_query models ''WebLink''
     [(''usuario.nome'', Ops [(''eq'', VStr ''x'')]), (''usuario.email'', Ops [(''like'', VStr ''y'')])]
     weblink_relationship_map =
     Inr \<lparr>q_joins = [(\<lparr>rel_owner = ''WebLink'', rel_key = ''usuario'', rel_target = ''Usuario''\<rparr>, True),
                   (\<lparr>rel_owner = ''WebLink'', rel_key = ''usuario'', rel_target = ''Usuario''\<rparr>, True)],
        q_wheres = [Eq (ColAttr ''Usuario'' ''nome'') (VStr ''x''),
                    Like (ColAttr ''Usuario'' ''email'') (VStr ''y'')],
        q_options = [], q_order_by = []\<rparr>"
  by code_simp

text \<open>
  Claim C1, amended. \<open>apply_filters\<close> of utils_bd.py adds exactly one join per distinct
  relationship that the fields of the filter map need, however many clauses need it.
  \<open>apply_sorting\<close> adds one join for every hop of the sort path, and \<open>apply_filters\<close>
  of crud_utils.py one join for every hop of every field, neither looking at the joins
  already made; what becomes of a repeated join is left to SQLAlchemy.
\<close>

theorem join_dedup_only_inside_apply_filters:
  "(apply_filters q sch m fp rm = Inr q1 \<longrightarrow>
      (\<exists>new. q_joins q1 = q_joins q @ map (\<lambda>p. (p, True)) new \<and> distinct new \<and>
         set new = (\<Union>f \<in> fst ` set fp. set (hops_of sch m rm f)))) \<and>
   (sb \<noteq> [] \<and> apply_sorting q1 sch m (Some sb) sort_dir rm = Inr q2 \<longrightarrow>
      q_joins q2 = q_joins q1 @ map (\<lambda>p. (p, True)) (hops_of sch m rm sb)) \<and>
   (crud_apply_filters q sch m fp rm = Inr q3 \<longrightarrow>
      q_joins q3 =
        q_joins q @ map (\<lambda>p. (p, True)) (concat (map (hops_of sch m rm) (map fst fp))))"
proof (intro conjI impI)
  assume a: "apply_filters q sch m fp rm = Inr q1"
  then obtain joined ap where
    b: "bd_apply_fields sch m rm fp (q, {}, {}) = Inr (q1, joined, ap)"
    by (auto simp: apply_filters_def split: sum.splits)
  have "q_joins q = q_joins q @ map (\<lambda>p. (p, True)) []" by simp
  from bd_apply_fields_inv[OF b this] show
    "\<exists>new. q_joins q1 = q_joins q @ map (\<lambda>p. (p, True)) new \<and> distinct new \<and>
         set new = (\<Union>f \<in> fst ` set fp. set (hops_of sch m rm f))"
    by auto
next
  assume "sb \<noteq> [] \<and> apply_sorting q1 sch m (Some sb) sort_dir rm = Inr q2"
  then show "q_joins q2 = q_joins q1 @ map (\<lambda>p. (p, True)) (hops_of sch m rm sb)"
    using apply_sorting_joins by blast
next
  assume "crud_apply_filters q sch m fp rm = Inr q3"
  then show "q_joins q3 =
        q_joins q @ map (\<lambda>p. (p, True)) (concat (map (hops_of sch m rm) (map fst fp)))"
    by (rule crud_apply_filters_joins)
qed

theorem join_dedup_only_inside_apply_filters_witness:
  "apply_filters empty_query models ''WebLink''
     [(''usuario.nome'', Ops [(''eq'', VStr ''x'')]), (''usuario.email'', Ops [(''like'', VStr ''y'')])]
     weblink_relationship_map =
     Inr \<lparr>q_joins = [(\<lparr>rel_owner = ''WebLink'', rel_key = ''usuario'', rel_target = ''Usuario''\<rparr>, True)],
        q_wheres = [Eq (ColAttr ''Usuario'' ''nome'') (VStr ''x''),
                    Like (ColAttr ''Usuario'' ''email'') (VStr ''y'')],
        q_options = [LoaderCriteria \<lparr>rel_owner = ''WebLink'', rel_key = ''usuario'', rel_target = ''Usuario''\<rparr>
                       (Eq (ColAttr ''Usuario'' ''nome'') (VStr ''x'')),
                     LoaderCriteria \<lparr>rel_owner = ''WebLink'', rel_key = ''usuario'', rel_target = ''Usuario''\<rparr>
                       (Like (ColAttr ''Usuario'' ''email'') (VStr ''y''))],
        q_order_by = []\<rparr> \<and>
   (\<exists>new. q_joins
      \<lparr>q_joins = [(\<lparr>rel_owner = ''WebLink'', rel_key = ''usuario'', rel_target = ''Usuario''\<rparr>, True)],
        q_wheres = [Eq (ColAttr ''Usuario'' ''nome'') (VStr ''x''),
                    Like (ColAttr ''Usuario'' ''email'') (VStr ''y'')],
        q_options = [LoaderCriteria \<lparr>rel_owner = ''WebLink'', rel_key = ''usuario'', rel_target = ''Usuario''\<rparr>
                       (Eq (ColAttr ''Usuario'' ''nome'') (VStr ''x'')),
                     LoaderCriteria \<lparr>rel_owner = ''WebLink'', rel_key = ''usuario'', rel_target = ''Usuario''\<rparr>
                       (Like (ColAttr ''Usuario'' ''email'') (VStr ''y''))],
        q_order_by = []\<rparr> = q_joins empty_query @ map (\<lambda>p. (p, True)) new \<and> distinct new \<and>
      set new = (\<Union>f \<in> fst ` set [(''usuario.nome'', Ops [(''eq'', VStr ''x'')]), (''usuario.email'', Ops [(''like'', VStr ''y'')])].
                   set (hops_of models ''WebLink'' weblink_relationship_map f))) \<and>
   ''usuario.nome'' \<noteq> [] \<and>
   apply_sorting
     \<lparr>q_joins = [(\<lparr>rel_owner = ''WebLink'', rel_key = ''usuario'', rel_target = ''Usuario''\<rparr>, True)],
        q_wheres = [Eq (ColAttr ''Usuario'' ''nome'') (VStr ''x''),
                    Like (ColAttr ''Usuario'' ''email'') (VStr ''y'')],
        q_options = [LoaderCriteria \<lparr>rel_owner = ''WebLink'', rel_key = ''usuario'', rel_target = ''Usuario''\<rparr>
                       (Eq (ColAttr ''Usuario'' ''nome'') (VStr ''x'')),
                     LoaderCriteria \<lparr>rel_owner = ''WebLink'', rel_key = ''usuario'', rel_target = ''Usuario''\<rparr>
                       (Like (ColAttr ''Usuario'' ''email'') (VStr ''y''))],
        q_order_by = []\<rparr>
     models ''WebLink'' (Some ''usuario.nome'') (Some ''asc'') weblink_relationship_map =
     Inr \<lparr>q_joins = [(\<lparr>rel_owner = ''WebLink'', rel_key = ''usuario'', rel_target = ''Usuario''\<rparr>, True),
                   (\<lparr>rel_owner = ''WebLink'', rel_key = ''usuario'', rel_target = ''Usuario''\<rparr>, True)],
        q_wheres = [Eq (ColAttr ''Usuario'' ''nome'') (VStr ''x''),
                    Like (ColAttr ''Usuario'' ''email'') (VStr ''y'')],
        q_options = [LoaderCriteria \<lparr>rel_owner = ''WebLink'', rel_key = ''usuario'', rel_target = ''Usuario''\<rparr>
                       (Eq (ColAttr ''Usuario'' ''nome'') (VStr ''x'')),
                     LoaderCriteria \<lparr>rel_owner = ''WebLink'', rel_key = ''usuario'', rel_target = ''Usuario''\<rparr>
                       (Like (ColAttr ''Usuario'' ''email'') (VStr ''y''))],
        q_order_by = [Asc (ColAttr ''Usuario'' ''nome'')]\<rparr> \<and>
   q_joins
     \<lparr>q_joins = [(\<lparr>rel_owner = ''WebLink'', rel_key = ''usuario'', rel_target = ''Usuario''\<rparr>, True),
                   (\<lparr>rel_owner = ''WebLink'', rel_key = ''usuario'', rel_target = ''Usuario''\<rparr>, True)],
        q_wheres = [Eq (ColAttr ''Usuario'' ''nome'') (VStr ''x''),
                    Like (ColAttr ''Usuario'' ''email'') (VStr ''y'')],
        q_options = [LoaderCriteria \<lparr>rel_owner = ''WebLink'', rel_key = ''usuario'', rel_target = ''Usuario''\<rparr>
                       (Eq (ColAttr ''Usuario'' ''nome'') (VStr ''x'')),
                     LoaderCriteria \<lparr>rel_owner = ''WebLink'', rel_key = ''usuario'', rel_target = ''Usuario''\<rparr>
                       (Like (ColAttr ''Usuario'' ''email'') (VStr ''y''))],
        q_order_by = [Asc (ColAttr ''Usuario'' ''nome'')]\<rparr> =
   q_joins
     \<lparr>q_joins = [(\<lparr>rel_owner = ''WebLink'', rel_key = ''usuario'', rel_target = ''Usuario''\<rparr>, True)],
        q_wheres = [Eq (ColAttr ''Usuario'' ''nome'') (VStr ''x''),
                    Like (ColAttr ''Usuario'' ''email'') (VStr ''y'')],
        q_options = [LoaderCriteria \<lparr>rel_owner = ''WebLink'', rel_key = ''usuario'', rel_target = ''Usuario''\<rparr>
                       (Eq (ColAttr ''Usuario'' ''nome'') (VStr ''x'')),
                     LoaderCriteria \<lparr>rel_owner = ''WebLink'', rel_key = ''usuario'', rel_target = ''Usuario''\<rparr>
                       (Like (ColAttr ''Usuario'' ''email'') (VStr ''y''))],
        q_order_by = []\<rparr> @ map (\<lambda>p. (p, True)) (hops_of models ''WebLink'' weblink_relationship_map ''usuario.nome'') \<and>
   crud_apply_filters empty_query models ''WebLink''
     [(''usuario.nome'', Ops [(''eq'', VStr ''x'')]), (''usuario.email'', Ops [(''like'', VStr ''y'')])]
     weblink_relationship_map =
     Inr \<lparr>q_joins = [(\<lparr>rel_owner = ''WebLink'', rel_key = ''usuario'', rel_target = ''Usuario''\<rparr>, True),
                   (\<lparr>rel_owner = ''WebLink'', rel_key = ''usuario'', rel_target = ''Usuario''\<rparr>, True)],
        q_wheres = [Eq (ColAttr ''Usuario'' ''nome'') (VStr ''x''),
                    Like (ColAttr ''Usuario'' ''email'') (VStr ''y'')],
        q_options = [], q_order_by = []\<rparr> \<and>
   q_joins
     \<lparr>q_joins = [(\<lparr>rel_owner = ''WebLink'', rel_key = ''usuario'', rel_target = ''Usuario''\<rparr>, True),
                   (\<lparr>rel_owner = ''WebLink'', rel_key = ''usuario'', rel_target = ''Usuario''\<rparr>, True)],
        q_wheres = [Eq (ColAttr ''Usuario'' ''nome'') (VStr ''x''),
                    Like (ColAttr ''Usuario'' ''email'') (VStr ''y'')],
        q_options = [], q_order_by = []\<rparr> =
   q_joins empty_query @ map (\<lambda>p. (p, True))
     (concat (map (hops_of models ''WebLink'' weblink_relationship_map)
        (map fst [(''usuario.nome'', Ops [(''eq'', VStr ''x'')]), (''usuario.email'', Ops [(''like'', VStr ''y'')])])))"
proof -
  have a: "apply_filters empty_query models ''WebLink''
     [(''usuario.nome'', Ops [(''eq'', VStr ''x'')]), (''usuario.email'', Ops [(''like'', VStr ''y'')])]
     weblink_relationship_map =
     Inr \<lparr>q_joins = [(\<lparr>rel_owner = ''WebLink'', rel_key = ''usuario'', rel_target = ''Usuario''\<rparr>, True)],
        q_wheres = [Eq (ColAttr ''Usuario'' ''nome'') (VStr ''x''),
                    Like (ColAttr ''Usuario'' ''email'') (VStr ''y'')],
        q_options = [LoaderCriteria \<lparr>rel_owner = ''WebLink'', rel_key = ''usuario'', rel_target = ''Usuario''\<rparr>
                       (Eq (ColAttr ''Usuario'' ''nome'') (VStr ''x'')),
                     LoaderCriteria \<lparr>rel_owner = ''WebLink'', rel_key = ''usuario'', rel_target = ''Usuario''\<rparr>
                       (Like (ColAttr ''Usuario'' ''email'') (VStr ''y''))],
        q_order_by = []\<rparr>"
    by code_simp
  have b: "apply_sorting
     \<lparr>q_joins = [(\<lparr>rel_owner = ''WebLink'', rel_key = ''usuario'', rel_target = ''Usuario''\<rparr>, True)],
        q_wheres = [Eq (ColAttr ''Usuario'' ''nome'') (VStr ''x''),
                    Like (ColAttr ''Usuario'' ''email'') (VStr ''y'')],
        q_options = [LoaderCriteria \<lparr>rel_owner = ''WebLink'', rel_key = ''usuario'', rel_target = ''Usuario''\<rparr>
                       (Eq (ColAttr ''Usuario'' ''nome'') (VStr ''x'')),
                     LoaderCriteria \<lparr>rel_owner = ''WebLink'', rel_key = ''usuario'', rel_target = ''Usuario''\<rparr>
                       (Like (ColAttr ''Usuario'' ''email'') (VStr ''y''))],
        q_order_by = []\<rparr>
     models ''WebLink'' (Some ''usuario.nome'') (Some ''asc'') weblink_relationship_map =
     Inr \<lparr>q_joins = [(\<lparr>rel_owner = ''WebLink'', rel_key = ''usuario'', rel_target = ''Usuario''\<rparr>, True),
                   (\<lparr>rel_owner = ''WebLink'', rel_key = ''usuario'', rel_target = ''Usuario''\<rparr>, True)],
        q_wheres = [Eq (ColAttr ''Usuario'' ''nome'') (VStr ''x''),
                    Like (ColAttr ''Usuario'' ''email'') (VStr ''y'')],
        q_options = [LoaderCriteria \<lparr>rel_owner = ''WebLink'', rel_key = ''usuario'', rel_target = ''Usuario''\<rparr>
                       (Eq (ColAttr ''Usuario'' ''nome'') (VStr ''x'')),
                     LoaderCriteria \<lparr>rel_owner = ''WebLink'', rel_key = ''usuario'', rel_target = ''Usuario''\<rparr>
                       (Like (ColAttr ''Usuario'' ''email'') (VStr ''y''))],
        q_order_by = [Asc (ColAttr ''Usuario'' ''nome'')]\<rparr>"
    by code_simp
  have c: "crud_apply_filters empty_query models ''WebLink''
     [(''usuario.nome'', Ops [(''eq'', VStr ''x'')]), (''usuario.email'', Ops [(''like'', VStr ''y'')])]
     weblink_relationship_map =
     Inr \<lparr>q_joins = [(\<lparr>rel_owner = ''WebLink'', rel_key = ''usuario'', rel_target = ''Usuario''\<rparr>, True),
                   (\<lparr>rel_owner = ''WebLink'', rel_key = ''usuario'', rel_target = ''Usuario''\<rparr>, True)],
        q_wheres = [Eq (ColAttr ''Usuario'' ''nome'') (VStr ''x''),
                    Like (ColAttr ''Usuario'' ''email'') (VStr ''y'')],
        q_options = [], q_order_by = []\<rparr>"
    by code_simp
  have d: "''usuario.nome'' \<noteq> []" by simp
  note t = join_dedup_only_inside_apply_filters [where q=empty_query and sch=models
      and m="''WebLink''" and rm="weblink_relationship_map"
      and fp="[(''usuario.nome'', Ops [(''eq'', VStr ''x'')]), (''usuario.email'', Ops [(''like'', VStr ''y'')])]"
      and ?q1.0="\<lparr>q_joins = [(\<lparr>rel_owner = ''WebLink'', rel_key = ''usuario'', rel_target = ''Usuario''\<rparr>, True)],
        q_wheres = [Eq (ColAttr ''Usuario'' ''nome'') (VStr ''x''),
                    Like (ColAttr ''Usuario'' ''email'') (VStr ''y'')],
        q_options = [LoaderCriteria \<lparr>rel_owner = ''WebLink'', rel_key = ''usuario'', rel_target = ''Usuario''\<rparr>
                       (Eq (ColAttr ''Usuario'' ''nome'') (VStr ''x'')),
                     LoaderCriteria \<lparr>rel_owner = ''WebLink'', rel_key = ''usuario'', rel_target = ''Usuario''\<rparr>
                       (Like (ColAttr ''Usuario'' ''email'') (VStr ''y''))],
        q_order_by = []\<rparr>"
      and sb="''usuario.nome''" and sort_dir="Some ''asc''"
      and ?q2.0="\<lparr>q_joins = [(\<lparr>rel_owner = ''WebLink'', rel_key = ''usuario'', rel_target = ''Usuario''\<rparr>, True),
                   (\<lparr>rel_owner = ''WebLink'', rel_key = ''usuario'', rel_target = ''Usuario''\<rparr>, True)],
        q_wheres = [Eq (ColAttr ''Usuario'' ''nome'') (VStr ''x''),
                    Like (ColAttr ''Usuario'' ''email'') (VStr ''y'')],
        q_options = [LoaderCriteria \<lparr>rel_owner = ''WebLink'', rel_key = ''usuario'', rel_target = ''Usuario''\<rparr>
                       (Eq (ColAttr ''Usuario'' ''nome'') (VStr ''x'')),
                     LoaderCriteria \<lparr>rel_owner = ''WebLink'', rel_key = ''usuario'', rel_target = ''Usuario''\<rparr>
                       (Like (ColAttr ''Usuario'' ''email'') (VStr ''y''))],
        q_order_by = [Asc (ColAttr ''Usuario'' ''nome'')]\<rparr>"
      and ?q3.0="\<lparr>q_joins = [(\<lparr>rel_owner = ''WebLink'', rel_key = ''usuario'', rel_target = ''Usuario''\<rparr>, True),
                   (\<lparr>rel_owner = ''WebLink'', rel_key = ''usuario'', rel_target = ''Usuario''\<rparr>, True)],
        q_wheres = [Eq (ColAttr ''Usuario'' ''nome'') (VStr ''x''),
                    Like (ColAttr ''Usuario'' ''email'') (VStr ''y'')],
        q_options = [], q_order_by = []\<rparr>"]
  show ?thesis
    using a b c d t by blast
qed

section \<open>Operators of a parsed filter map\<close>












section \<open>Null literals\<close>

lemma filter_lookup_update:
  "filter_lookup (AList.update g (AList.update o' pv ops0) fm) f lop =
     (if f = g then (if lop = o' then Some pv else map_of ops0 lop)
      else filter_lookup fm f lop)"
  by (simp add: filter_lookup_def update_conv')

lemma parse_step_fresh_lookup:
  assumes "filter_match key = Some (f, op)" and "key \<notin> processed_keys st"
  shows "filter_lookup (filters (parse_step st (key, v))) f (py_lower op) =
           Some (parse_filter_value v) \<and>
         key \<in> processed_keys (parse_step st (key, v))"
  using assms filter_match_Some[OF assms(1)]
  by (simp add: parse_step_def Let_def py_lower_def filter_lookup_update)

lemma parse_step_keeps_lookup:
  assumes "key \<in> processed_keys st" and "filter_lookup (filters st) f lop = Some x"
    and "fst kv \<noteq> key \<longrightarrow>
           (\<forall>f' op'. filter_match (fst kv) = Some (f', op') \<longrightarrow> \<not> (f' = f \<and> py_lower op' = lop))"
  shows "filter_lookup (filters (parse_step st kv)) f lop = Some x \<and>
         key \<in> processed_keys (parse_step st kv)"
proof (cases "fst kv \<in> processed_keys st")
  case True
  then show ?thesis using assms(1,2) by (simp add: parse_step_def)
next
  case False
  then have ne: "fst kv \<noteq> key" using assms(1) by auto
  show ?thesis
  proof (cases "filter_match (fst kv)")
    case None
    then show ?thesis using assms(1,2) False by (simp add: parse_step_def)
  next
    case (Some a)
    obtain f' op' where a: "a = (f', op')" by (cases a)
    have d: "\<not> (f' = f \<and> py_lower op' = lop)" using assms(3) ne Some a by blast
    have nz: "f' \<noteq> []" "py_lower op' \<noteq> []"
      using filter_match_Some[of "fst kv" f' op'] Some a by (simp_all add: py_lower_def)
    have old: "f' = f \<Longrightarrow>
        map_of (case map_of (filters st) f' of None \<Rightarrow> [] | Some d \<Rightarrow> d) lop = Some x"
      using assms(2) by (auto simp: filter_lookup_def split: option.splits)
    show ?thesis
      using assms(1,2) False Some a d nz old
      by (auto simp: parse_step_def Let_def filter_lookup_update)
  qed
qed

lemma foldl_parse_step_keeps_lookup:
  assumes "key \<in> processed_keys st" and "filter_lookup (filters st) f lop = Some x"
    and "\<forall>kv \<in> set later. fst kv \<noteq> key \<longrightarrow>
           (\<forall>f' op'. filter_match (fst kv) = Some (f', op') \<longrightarrow> \<not> (f' = f \<and> py_lower op' = lop))"
  shows "filter_lookup (filters (foldl parse_step st later)) f lop = Some x"
  using assms
proof (induction later arbitrary: st)
  case Nil
  then show ?case by simp
next
  case (Cons kv later)
  have s: "filter_lookup (filters (parse_step st kv)) f lop = Some x \<and>
         key \<in> processed_keys (parse_step st kv)"
    using parse_step_keeps_lookup[OF Cons.prems(1,2), of kv] Cons.prems(3) by simp
  show ?case
    using Cons.IH[of "parse_step st kv"] s Cons.prems(3) by simp
qed

lemma parse_filters_fresh_entry:
  assumes "filter_match key = Some (f, op)" and "key \<notin> fst ` set qs"
    and "\<forall>kv \<in> set later. fst kv \<noteq> key \<longrightarrow>
           (\<forall>f' op'. filter_match (fst kv) = Some (f', op') \<longrightarrow>
              \<not> (f' = f \<and> py_lower op' = py_lower op))"
  shows "filter_lookup (fst (parse_filters (qs @ (key, v) # later))) f (py_lower op) =
           Some (parse_filter_value v)"
proof -
  have np: "key \<notin> processed_keys (parse_run qs)"
    using assms(2) by (simp add: parse_run_processed)
  have run: "parse_run (qs @ (key, v) # later) =
               foldl parse_step (parse_step (parse_run qs) (key, v)) later"
    by (simp add: parse_run_def)
  show ?thesis
    using foldl_parse_step_keeps_lookup[OF _ _ assms(3), of "parse_step (parse_run qs) (key, v)"
        "parse_filter_value v"]
      parse_step_fresh_lookup[OF assms(1) np, of v]
    by (simp add: parse_filters_def Let_def run)
qed


text \<open>
  Claim C9 says that every filter whose raw value is null or none is stored as \<open>None\<close>
  and compiles under \<open>isnull\<close> to \<open>IS NOT NULL\<close>. When the key
  \<open>filter[title][isnull]\<close> comes first with the value true and then with the value null,
  the second entry is skipped at the \<open>if key in processed_keys\<close> guard: the filter map
  holds \<open>True\<close>, not \<open>None\<close>, and the clause compiles to \<open>IS NULL\<close>.
\<close>

theorem null_literal_skipped_counterexample:
  "parse_filter_value ''null'' = VNone \<and>
   parse_filters [(''filter[title][isnull]'', ''true''), (''filter[title][isnull]'', ''null'')] =
     ([(''title'', [(''isnull'', VBool True)])], []) \<and>
   crud_apply_filters empty_query models ''WebLink''
     (as_filter_params (fst (parse_filters
        [(''filter[title][isnull]'', ''true''), (''filter[title][isnull]'', ''null'')])))
     weblink_relationship_map =
     Inr \<lparr>q_joins = [], q_wheres = [IsNull (ColAttr ''WebLink'' ''title'')], q_options = [],
          q_order_by = []\<rparr>"
  by code_simp

text \<open>
  Claim C9, amended. A raw value that is null or none in any letter case is parsed to
  \<open>None\<close>. When the key of its entry did not occur earlier among the query parameters,
  the parser stores \<open>None\<close> under the entry's field and lower-cased operator, and the
  filter map returned still holds it unless a later entry with another key names the
  same field and lower-cased operator. \<open>isnull\<close> applied to the parsed value compiles to
  \<open>IS NOT NULL\<close> in both \<open>apply_filters\<close>, since \<open>None\<close> coerces to false.
\<close>

theorem null_literal_is_not_null:
  assumes "py_lower v \<in> {''null'', ''none''}"
  shows "parse_filter_value v = VNone \<and>
         (filter_match key = Some (f, op) \<and> key \<notin> fst ` set qs \<and>
          (\<forall>kv \<in> set later. fst kv \<noteq> key \<longrightarrow>
             (\<forall>f' op'. filter_match (fst kv) = Some (f', op') \<longrightarrow>
                \<not> (f' = f \<and> py_lower op' = py_lower op))) \<longrightarrow>
            filter_lookup (fst (parse_filters (qs @ (key, v) # later))) f (py_lower op) =
              Some VNone) \<and>
         (filter_match key = Some (f, op) \<longrightarrow>
            parse_filters [(key, v)] = ([(f, [(py_lower op, VNone)])], [])) \<and>
         (get_column_or_relationship sch m f rm = Inr (c, e, js) \<longrightarrow>
            crud_apply_filters q sch m [(f, Ops [(''isnull'', parse_filter_value v)])] rm =
              Inr (q\<lparr>q_joins := q_joins q @ map (\<lambda>p. (p, True)) js,
                     q_wheres := q_wheres q @ [IsNotNull c]\<rparr>) \<and>
            (\<exists>q'. apply_filters q sch m [(f, Ops [(''isnull'', parse_filter_value v)])] rm = Inr q' \<and>
               q_wheres q' = q_wheres q @ [IsNotNull c]))"
proof -
  have n: "parse_filter_value v = VNone"
    using assms by (auto simp: parse_filter_value_def Let_def)
  have op: "map_of OPERATOR_MAP (py_lower ''isnull'') =
              Some (\<lambda>c v. Some (if parse_bool v then IsNull c else IsNotNull c))"
    by (simp only: py_lower_isnull operator_isnull)
  have stored: "filter_match key = Some (f, op) \<and> key \<notin> fst ` set qs \<and>
          (\<forall>kv \<in> set later. fst kv \<noteq> key \<longrightarrow>
             (\<forall>f' op'. filter_match (fst kv) = Some (f', op') \<longrightarrow>
                \<not> (f' = f \<and> py_lower op' = py_lower op))) \<longrightarrow>
            filter_lookup (fst (parse_filters (qs @ (key, v) # later))) f (py_lower op) =
              Some VNone"
    using parse_filters_fresh_entry[of key f op qs later v] n by simp
  have single: "filter_match key = Some (f, op) \<longrightarrow>
            parse_filters [(key, v)] = ([(f, [(py_lower op, VNone)])], [])"
    using parse_filters_single[of key f op v] n by simp
  have crud: "crud_apply_filters q sch m [(f, Ops [(''isnull'', VNone)])] rm =
              Inr (q\<lparr>q_joins := q_joins q @ map (\<lambda>p. (p, True)) js,
                     q_wheres := q_wheres q @ [IsNotNull c]\<rparr>)"
    if "get_column_or_relationship sch m f rm = Inr (c, e, js)"
    by (rule crud_single_clause[OF that op coerce_isnull]) simp
  have bd: "\<exists>q'. apply_filters q sch m [(f, Ops [(''isnull'', VNone)])] rm = Inr q' \<and>
               q_wheres q' = q_wheres q @ [IsNotNull c]"
    if "get_column_or_relationship sch m f rm = Inr (c, e, js)"
    by (rule bd_single_clause[OF that op coerce_isnull]) simp
  have compiled: "get_column_or_relationship sch m f rm = Inr (c, e, js) \<longrightarrow>
            crud_apply_filters q sch m [(f, Ops [(''isnull'', parse_filter_value v)])] rm =
              Inr (q\<lparr>q_joins := q_joins q @ map (\<lambda>p. (p, True)) js,
                     q_wheres := q_wheres q @ [IsNotNull c]\<rparr>) \<and>
            (\<exists>q'. apply_filters q sch m [(f, Ops [(''isnull'', parse_filter_value v)])] rm = Inr q' \<and>
               q_wheres q' = q_wheres q @ [IsNotNull c])"
    unfolding n using crud bd by blast
  show ?thesis
    by (intro conjI n stored single compiled)
qed

theorem null_literal_is_not_null_witness:
  "py_lower ''NULL'' \<in> {''null'', ''none''} \<and>
   filter_match ''filter[usuario.senha][isnull]'' = Some (''usuario.senha'', ''isnull'') \<and>
   ''filter[usuario.senha][isnull]'' \<notin> fst ` set [(''filter[title][eq]'', ''a'')] \<and>
   filter_lookup (fst (parse_filters ([(''filter[title][eq]'', ''a'')] @
        (''filter[usuario.senha][isnull]'', ''NULL'') # [(''filter[usuario.senha][eq]'', ''x'')])))
     ''usuario.senha'' (py_lower ''isnull'') = Some VNone \<and>
   parse_filters [(''filter[usuario.senha][isnull]'', ''NULL'')] =
     ([(''usuario.senha'', [(py_lower ''isnull'', VNone)])], []) \<and>
   get_column_or_relationship models ''WebLink'' ''usuario.senha'' weblink_relationship_map =
     Inr (ColAttr ''Usuario'' ''senha'', ''Usuario'', [\<lparr>rel_owner = ''WebLink'', rel_key = ''usuario'', rel_target = ''Usuario''\<rparr>]) \<and>
   crud_apply_filters empty_query models ''WebLink''
     [(''usuario.senha'', Ops [(''isnull'', parse_filter_value ''NULL'')])]
     weblink_relationship_map =
     Inr (empty_query\<lparr>q_joins := q_joins empty_query @ map (\<lambda>p. (p, True)) [\<lparr>rel_owner = ''WebLink'', rel_key = ''usuario'', rel_target = ''Usuario''\<rparr>],
            q_wheres := q_wheres empty_query @ [IsNotNull (ColAttr ''Usuario'' ''senha'')]\<rparr>)"
proof -
  have a: "py_lower ''NULL'' \<in> {''null'', ''none''}" by code_simp
  have b: "filter_match ''filter[usuario.senha][isnull]'' = Some (''usuario.senha'', ''isnull'')"
    by code_simp
  have fresh: "''filter[usuario.senha][isnull]'' \<notin> fst ` set [(''filter[title][eq]'', ''a'')]"
    by simp
  have m2: "filter_match ''filter[usuario.senha][eq]'' = Some (''usuario.senha'', ''eq'')"
    by code_simp
  have l2: "py_lower ''eq'' \<noteq> py_lower ''isnull''" by code_simp
  have later: "\<forall>kv \<in> set [(''filter[usuario.senha][eq]'', ''x'')].
      fst kv \<noteq> ''filter[usuario.senha][isnull]'' \<longrightarrow>
        (\<forall>f' op'. filter_match (fst kv) = Some (f', op') \<longrightarrow>
           \<not> (f' = ''usuario.senha'' \<and> py_lower op' = py_lower ''isnull''))"
    using m2 l2 by simp
  have h: "get_column_or_relationship models ''WebLink'' ''usuario.senha'' weblink_relationship_map =
     Inr (ColAttr ''Usuario'' ''senha'', ''Usuario'', [\<lparr>rel_owner = ''WebLink'', rel_key = ''usuario'', rel_target = ''Usuario''\<rparr>])"
    by code_simp
  note t = null_literal_is_not_null [OF a, where key="''filter[usuario.senha][isnull]''"
        and f="''usuario.senha''" and op="''isnull''" and sch=models and m="''WebLink''"
        and rm=weblink_relationship_map and c="ColAttr ''Usuario'' ''senha''"
        and e="''Usuario''" and q=empty_query and js="[\<lparr>rel_owner = ''WebLink'', rel_key = ''usuario'', rel_target = ''Usuario''\<rparr>]"
        and qs="[(''filter[title][eq]'', ''a'')]"
        and later="[(''filter[usuario.senha][eq]'', ''x'')]"]
  have t2: "filter_lookup (fst (parse_filters ([(''filter[title][eq]'', ''a'')] @
        (''filter[usuario.senha][isnull]'', ''NULL'') # [(''filter[usuario.senha][eq]'', ''x'')])))
     ''usuario.senha'' (py_lower ''isnull'') = Some VNone"
    by (rule mp[OF conjunct1[OF conjunct2[OF t]]]) (intro conjI b fresh later)
  have t3: "parse_filters [(''filter[usuario.senha][isnull]'', ''NULL'')] =
     ([(''usuario.senha'', [(py_lower ''isnull'', VNone)])], [])"
    by (rule mp[OF conjunct1[OF conjunct2[OF conjunct2[OF t]]] b])
  have t4: "crud_apply_filters empty_query models ''WebLink''
     [(''usuario.senha'', Ops [(''isnull'', parse_filter_value ''NULL'')])]
     weblink_relationship_map =
     Inr (empty_query\<lparr>q_joins := q_joins empty_query @ map (\<lambda>p. (p, True)) [\<lparr>rel_owner = ''WebLink'', rel_key = ''usuario'', rel_target = ''Usuario''\<rparr>],
            q_wheres := q_wheres empty_query @ [IsNotNull (ColAttr ''Usuario'' ''senha'')]\<rparr>)"
    by (rule conjunct1[OF mp[OF conjunct2[OF conjunct2[OF conjunct2[OF t]]] h]])
  show ?thesis
    by (intro conjI a b fresh t2 t3 h t4)
qed

end
